theory Spec2Isabelle
  imports Main "HOL-Library.Sublist"
begin

section \<open>C and C++ library behaviour used by IXHttpClient.cpp\<close>

text \<open>
  A \<open>std::string\<close> is a \<open>string\<close>: a list of 8-bit characters. \<open>of_char c\<close> is the value of
  \<open>(unsigned char) c\<close>.
\<close>

definition CRLF :: string where
  "CRLF = [CHR 0x0D, CHR 0x0A]"

text \<open>\<open>isalnum\<close> and \<open>isspace\<close> of the C library in the "C" locale, which the program never changes.\<close>

definition isalnum :: "char \<Rightarrow> bool" where
  "isalnum c = (let n = (of_char c :: nat) in
     (48 \<le> n \<and> n \<le> 57) \<or> (65 \<le> n \<and> n \<le> 90) \<or> (97 \<le> n \<and> n \<le> 122))"

definition isspace :: "char \<Rightarrow> bool" where
  "isspace c = (let n = (of_char c :: nat) in n = 32 \<or> (9 \<le> n \<and> n \<le> 13))"

text \<open>The digit a character stands for, in bases up to 16 (both letter cases).\<close>

definition hex_value :: "char \<Rightarrow> nat option" where
  "hex_value c = (let n = (of_char c :: nat) in
     if 48 \<le> n \<and> n \<le> 57 then Some (n - 48)
     else if 65 \<le> n \<and> n \<le> 70 then Some (n - 55)
     else if 97 \<le> n \<and> n \<le> 102 then Some (n - 87)
     else None)"

definition digit_value :: "nat \<Rightarrow> char \<Rightarrow> nat option" where
  "digit_value base c =
     (case hex_value c of None \<Rightarrow> None | Some d \<Rightarrow> if d < base then Some d else None)"

subsection \<open>Formatted output: \<open>operator<<\<close> on integers, \<open>std::hex\<close>, \<open>std::uppercase\<close>, \<open>std::setw\<close>\<close>

definition hex_digit_upper :: "nat \<Rightarrow> char" where
  "hex_digit_upper d = ''0123456789ABCDEF'' ! d"

function hex_upper :: "nat \<Rightarrow> string" where
  "hex_upper n =
     (if n < 16 then [hex_digit_upper n]
      else hex_upper (n div 16) @ [hex_digit_upper (n mod 16)])"
  by pat_completeness auto
termination
  by (relation "measure id") auto

declare hex_upper.simps [simp del]

function dec :: "nat \<Rightarrow> string" where
  "dec n = (if n < 10 then [hex_digit_upper n] else dec (n div 10) @ [hex_digit_upper (n mod 10)])"
  by pat_completeness auto
termination
  by (relation "measure id") auto

declare dec.simps [simp del]

definition dec_int :: "int \<Rightarrow> string" where
  "dec_int i = (if i < 0 then CHR ''-'' # dec (nat (- i)) else dec (nat i))"

text \<open>\<open>std::setw(w)\<close> with fill character \<open>fill\<close>: pads on the left up to width \<open>w\<close>.\<close>

definition setw :: "nat \<Rightarrow> char \<Rightarrow> string \<Rightarrow> string" where
  "setw w fill s = replicate (w - length s) fill @ s"

subsection \<open>Formatted input: \<open>operator>>\<close> on integers\<close>

text \<open>
  \<open>accumulate base acc s\<close> reads the longest run of digits of the base at the front of \<open>s\<close>:
  the number read (continuing \<open>acc\<close>), how many digits it took, and the rest.
\<close>

fun accumulate :: "nat \<Rightarrow> nat \<Rightarrow> nat \<Rightarrow> string \<Rightarrow> nat \<times> nat \<times> string" where
  "accumulate base acc k [] = (acc, k, [])"
| "accumulate base acc k (c # cs) =
     (case digit_value base c of
        None \<Rightarrow> (acc, k, c # cs)
      | Some d \<Rightarrow> accumulate base (acc * base + d) (Suc k) cs)"

text \<open>An optional sign: whether it was a minus, and the rest.\<close>

fun take_sign :: "string \<Rightarrow> bool \<times> string" where
  "take_sign [] = (False, [])"
| "take_sign (c # cs) =
     (if c = CHR ''-'' then (True, cs) else if c = CHR ''+'' then (False, cs) else (False, c # cs))"

text \<open>The \<open>0x\<close> or \<open>0X\<close> prefix that a hexadecimal conversion skips.\<close>

fun skip_0x :: "string \<Rightarrow> string" where
  "skip_0x (z # x # cs) =
     (if z = CHR ''0'' \<and> (x = CHR ''x'' \<or> x = CHR ''X'') then cs else z # x # cs)"
| "skip_0x cs = cs"

text \<open>
  \<open>ss >> v\<close> for \<open>uint64_t v\<close> on a stream with \<open>std::hex\<close> set, whose buffer holds \<open>buf\<close> and
  whose state is good iff \<open>good\<close>. The result is what is stored into \<open>v\<close> (\<open>None\<close>: \<open>v\<close> is
  not assigned) and whether the stream is still good afterwards.
  \<^item> On a stream that is not good, or whose buffer holds nothing but white space, the sentry
    fails: \<open>failbit\<close> is set and \<open>v\<close> is left as it was.
  \<^item> With no digit to read (after the sign and the \<open>0x\<close> prefix, if any), 0 is stored and
    \<open>failbit\<close> is set (C++11).
  \<^item> A number above \<open>2^64 - 1\<close> stores \<open>2^64 - 1\<close> and sets \<open>failbit\<close>.
  \<^item> A minus sign negates modulo \<open>2^64\<close>, as \<open>strtoull\<close> does.
  \<^item> Digits that reach the end of the buffer set \<open>eofbit\<close>: the stream is no longer good.
\<close>

definition extract_hex_uint64 :: "bool \<Rightarrow> string \<Rightarrow> nat option \<times> bool" where
  "extract_hex_uint64 good buf =
     (if \<not> good then (None, False)
      else let s1 = dropWhile isspace buf in
        if s1 = [] then (None, False)
        else
          (case take_sign s1 of (neg, s2) \<Rightarrow>
            (case accumulate 16 0 0 (skip_0x s2) of (v, k, r) \<Rightarrow>
               if k = 0 then (Some 0, False)
               else if v \<ge> 2 ^ 64 then (Some (2 ^ 64 - 1), False)
               else (Some (if neg then (2 ^ 64 - v) mod 2 ^ 64 else v), r \<noteq> []))))"

text \<open>
  \<open>ss >> v\<close> for \<open>ssize_t v\<close> (64 bits, two's complement) in decimal, on a good stream whose
  buffer holds \<open>buf\<close>: what is stored into \<open>v\<close> (\<open>None\<close>: not assigned). Out of range, the
  nearest bound is stored.
\<close>

definition extract_dec_ssize :: "string \<Rightarrow> int option" where
  "extract_dec_ssize buf =
     (let s1 = dropWhile isspace buf in
        if s1 = [] then None
        else
          (case take_sign s1 of (neg, s2) \<Rightarrow>
            (case accumulate 10 0 0 s2 of (v, k, r) \<Rightarrow>
               if k = 0 then Some 0
               else if neg then Some (if v > 2 ^ 63 then - (2 ^ 63) else - int v)
               else Some (if v \<ge> 2 ^ 63 then 2 ^ 63 - 1 else int v))))"

text \<open>Conversion of an \<open>ssize_t\<close> to \<open>size_t\<close> (64 bits).\<close>

definition to_size_t :: "int \<Rightarrow> nat" where
  "to_size_t i = nat (i mod 2 ^ 64)"

text \<open>
  \<open>sscanf(line.c_str(), "HTTP/1.1 %d", &code)\<close>: the literal characters must match, white
  space is skipped, and \<open>%d\<close> reads an optional sign and at least one decimal digit. The
  result is \<open>Some code\<close> when \<open>sscanf\<close> returns 1. \<open>c_str()\<close> ends at the first NUL.
  \<open>code\<close> is an \<open>int\<close> of 32 bits. C leaves a number outside its range undefined; glibc
  converts the digits as \<open>strtol\<close> does, to the nearest \<open>long\<close> (64 bits), and stores the low
  32 bits, which is what \<open>to_int32\<close> and \<open>to_long\<close> do here.
\<close>

definition c_str :: "string \<Rightarrow> string" where
  "c_str s = takeWhile (\<lambda>c. of_char c \<noteq> (0::nat)) s"

definition to_long :: "int \<Rightarrow> int" where
  "to_long i = max (- (2 ^ 63)) (min (2 ^ 63 - 1) i)"

definition to_int32 :: "int \<Rightarrow> int" where
  "to_int32 i = (i + 2 ^ 31) mod 2 ^ 32 - 2 ^ 31"

definition sscanf_status :: "string \<Rightarrow> int option" where
  "sscanf_status cs =
     (if take 8 cs = ''HTTP/1.1'' then
        (case take_sign (dropWhile isspace (drop 8 cs)) of (neg, s2) \<Rightarrow>
          (case accumulate 10 0 0 s2 of (v, k, r) \<Rightarrow>
             if k = 0 then None
             else Some (to_int32 (to_long (if neg then - int v else int v)))))
      else None)"

section \<open>\<open>HttpClient::urlEncode\<close> and \<open>HttpClient::serializeHttpParameters\<close>\<close>

fun urlEncode :: "string \<Rightarrow> string" where
  "urlEncode [] = []"
| "urlEncode (c # cs) =
     (if isalnum c \<or> c = CHR ''-'' \<or> c = CHR ''_'' \<or> c = CHR ''.'' \<or> c = CHR ''~''
      then c # urlEncode cs
      else CHR ''%'' # setw 2 CHR ''0'' (hex_upper (of_char c)) @ urlEncode cs)"

text \<open>
  \<open>HttpParameters\<close> is a \<open>std::map\<close>; the list holds its entries in the order the loop
  visits them. The separator is written after every entry but the last.
\<close>

fun serializeHttpParameters :: "(string \<times> string) list \<Rightarrow> string" where
  "serializeHttpParameters [] = []"
| "serializeHttpParameters [(k, v)] = urlEncode k @ ''='' @ urlEncode v"
| "serializeHttpParameters ((k, v) # rest) =
     urlEncode k @ ''='' @ urlEncode v @ ''&'' @ serializeHttpParameters rest"

text \<open>
  Percent-decoding, the inverse named by the specification (it is not part of the
  source): \<open>%\<close> followed by two hexadecimal digits is the byte with that value, and every
  other character stands for itself.
\<close>

fun percentDecode :: "string \<Rightarrow> string" where
  "percentDecode [] = []"
| "percentDecode (c # cs) =
     (if c = CHR ''%'' then
        (case cs of
           h # l # rest \<Rightarrow>
             (case (hex_value h, hex_value l) of
                (Some a, Some b) \<Rightarrow> char_of (16 * a + b) # percentDecode rest
              | _ \<Rightarrow> c # percentDecode cs)
         | _ \<Rightarrow> c # percentDecode cs)
      else c # percentDecode cs)"

text \<open>The escape the specification prescribes for a byte: \<open>%\<close> and two uppercase hexadecimal digits.\<close>

definition percent_escape :: "char \<Rightarrow> string" where
  "percent_escape c =
     [CHR ''%'', ''0123456789ABCDEF'' ! (of_char c div 16), ''0123456789ABCDEF'' ! (of_char c mod 16)]"

section \<open>Data model\<close>

datatype HttpErrorCode =
    Ok | CannotConnect | Gzip | UrlMalformed | CannotCreateSocket | SendError
  | CannotReadStatusLine | MissingStatus | HeaderParsingError | MissingLocation
  | TooManyRedirects | ChunkReadError | CannotReadBody

text \<open>
  Modelled from the spec: \<open>WebSocketHttpHeaders\<close> is declared in IXWebSocketHttpHeaders.h,
  which is not among the sources. The specification gives response headers as a mapping
  from strings to strings, and \<open>extraHeaders\<close> as an ordered mapping with case-sensitive
  keys. Response headers, which the code only searches and indexes, are a map; the
  \<open>extraHeaders\<close> of a request, which the code also walks through, are the list of entries
  in the order of the walk, with \<open>map_of\<close> for \<open>find\<close>.
\<close>

type_synonym WebSocketHttpHeaders = "string \<rightharpoonup> string"

text \<open>\<open>headers[k]\<close>: the value at \<open>k\<close>; a missing key is inserted with an empty value.\<close>

definition subscript :: "WebSocketHttpHeaders \<Rightarrow> string \<Rightarrow> string \<times> WebSocketHttpHeaders" where
  "subscript h k = (case h k of None \<Rightarrow> ([], h(k \<mapsto> [])) | Some v \<Rightarrow> (v, h))"

text \<open>
  \<open>HttpRequestArgs\<close>, without \<open>logger\<close>: the \<open>verbose\<close> branches only hand a message to the
  logger and assign nothing that is read later, so they are left out of the model.
\<close>

record HttpRequestArgs =
  url :: string
  verb :: string
  body :: string
  extraHeaders :: "(string \<times> string) list"
  connectTimeout :: int
  transferTimeout :: int
  followRedirects :: bool
  maxRedirects :: int
  verbose :: bool
  compress :: bool
  onProgressCallback :: "int \<Rightarrow> int \<Rightarrow> bool"

record HttpResponse =
  statusCode :: int
  errorCode :: HttpErrorCode
  headers :: WebSocketHttpHeaders
  payload :: string
  errorMsg :: string
  uploadSize :: nat
  downloadSize :: nat

definition kPost :: string where "kPost = ''POST''"
definition kGet :: string where "kGet = ''GET''"
definition kHead :: string where "kHead = ''HEAD''"
definition kDel :: string where "kDel = ''DEL''"
definition kPut :: string where "kPut = ''PUT''"

section \<open>The collaborators of the engine\<close>

text \<open>
  The URL parser, the socket, the header parser and zlib are not part of the sources.
  They are parameters of the model: deterministic operations on a state \<open>'s\<close> that stands
  for the socket and the network behind it. Each operation that takes a cancellation
  predicate gets the timeout from which \<open>makeCancellationRequestWithTimeout\<close> builds it.
  \<^item> \<open>UrlParser_parse url\<close>: protocol, host, path, query and port, or \<open>None\<close> for \<open>false\<close>.
  \<^item> \<open>createSocket tls\<close>: whether the socket is non-null, and the error message it leaves.
  \<^item> \<open>connect host port timeout\<close>: success, and the error message.
  \<^item> \<open>writeBytes\<close>, \<open>readLine\<close>, \<open>readBytes\<close>: the results of the socket's methods.
  \<^item> \<open>parseHttpHeaders\<close>: validity and the headers read.
  \<^item> \<open>gzipInflate\<close>: the inflated bytes, or \<open>None\<close> when \<open>HttpClient::gzipInflate\<close> returns
    false; the outcome of that function is decided by zlib alone.
  \<^item> \<open>reserve_ok n\<close>: whether \<open>std::string::reserve(n)\<close> returns; otherwise it throws
    (\<open>std::length_error\<close> above \<open>max_size()\<close>, \<open>std::bad_alloc\<close> when memory runs out).
\<close>

record 's Transport =
  UrlParser_parse :: "string \<Rightarrow> (string \<times> string \<times> string \<times> string \<times> int) option"
  createSocket :: "bool \<Rightarrow> 's \<Rightarrow> (bool \<times> string) \<times> 's"
  connect :: "string \<Rightarrow> int \<Rightarrow> int \<Rightarrow> 's \<Rightarrow> (bool \<times> string) \<times> 's"
  writeBytes :: "string \<Rightarrow> int \<Rightarrow> 's \<Rightarrow> bool \<times> 's"
  readLine :: "int \<Rightarrow> 's \<Rightarrow> (bool \<times> string) \<times> 's"
  readBytes :: "nat \<Rightarrow> (int \<Rightarrow> int \<Rightarrow> bool) \<Rightarrow> int \<Rightarrow> 's \<Rightarrow> (bool \<times> string) \<times> 's"
  parseHttpHeaders :: "int \<Rightarrow> 's \<Rightarrow> (bool \<times> WebSocketHttpHeaders) \<times> 's"
  gzipInflate :: "string \<Rightarrow> string option"
  reserve_ok :: "nat \<Rightarrow> bool"

text \<open>
  How a call of \<open>HttpClient::request\<close> ends: it returns a response; an exception leaves
  it; it blocks for ever on \<open>_mutex\<close>; or it reads \<open>chunkSize\<close> while that variable holds no
  value (undefined behaviour).
\<close>

datatype outcome = Returned HttpResponse | Throws | Deadlock | ReadsIndeterminate

text \<open>The members of \<open>HttpClient\<close> that \<open>request\<close> uses: \<open>_mutex\<close> (is it locked?) and \<open>_socket\<close>.\<close>

record 's HttpClient =
  mutex_locked :: bool
  socket :: 's

section \<open>\<open>HttpClient::request\<close>\<close>

subsection \<open>The request string (lines 145 to 190)\<close>

text \<open>
  \<open>hs\<close> is the local variable \<open>headers\<close>, the headers of the response, which the two
  default-header tests search.
\<close>

definition build_request ::
  "string \<Rightarrow> string \<Rightarrow> string \<Rightarrow> HttpRequestArgs \<Rightarrow> WebSocketHttpHeaders \<Rightarrow> string \<Rightarrow> string" where
  "build_request theVerb path host args hs theBody =
     theVerb @ '' '' @ path @ '' HTTP/1.1'' @ CRLF @
     ''Host: '' @ host @ CRLF @
     (if compress args then ''Accept-Encoding: gzip'' @ CRLF else []) @
     concat (map (\<lambda>(k, v). k @ '': '' @ v @ CRLF) (extraHeaders args)) @
     (if hs ''Accept'' = None then ''Accept: */*'' @ CRLF else []) @
     (if hs ''User-Agent'' = None then ''User-Agent: ixwebsocket'' @ CRLF else []) @
     (if theVerb = kPost \<or> theVerb = kPut then
        ''Content-Length: '' @ dec (length theBody) @ CRLF @
        (if map_of (extraHeaders args) ''Content-Type'' = None
         then ''Content-Type: application/x-www-form-urlencoded'' @ CRLF else []) @
        CRLF @ theBody
      else CRLF)"

subsection \<open>From the URL to the response headers (lines 116 to 273)\<close>

text \<open>
  \<open>Inl\<close> is the response of an early return. \<open>Inr\<close> carries on: the status code, the
  headers, \<open>uploadSize\<close> and the \<open>errorMsg\<close> that \<open>createSocket\<close> left.
\<close>

definition response_head ::
  "'s Transport \<Rightarrow> HttpRequestArgs \<Rightarrow> string \<Rightarrow> string \<Rightarrow> string \<Rightarrow> 's \<Rightarrow>
     (HttpResponse + int \<times> WebSocketHttpHeaders \<times> nat \<times> string) \<times> 's" where
  "response_head E args theUrl theVerb theBody s =
     (case UrlParser_parse E theUrl of
        None \<Rightarrow>
          (Inl \<lparr>statusCode = 0, errorCode = UrlMalformed, headers = Map.empty, payload = [],
                errorMsg = ''Cannot parse url: '' @ theUrl, uploadSize = 0, downloadSize = 0\<rparr>, s)
      | Some (protocol, host, path, query, port) \<Rightarrow>
          (case createSocket E (protocol = ''https'') s of ((created, msg), s1) \<Rightarrow>
             if \<not> created then
               (Inl \<lparr>statusCode = 0, errorCode = CannotCreateSocket, headers = Map.empty,
                     payload = [], errorMsg = msg, uploadSize = 0, downloadSize = 0\<rparr>, s1)
             else
               let req = build_request theVerb path host args Map.empty theBody in
               (case connect E host port (connectTimeout args) s1 of ((connected, errMsg), s2) \<Rightarrow>
                  if \<not> connected then
                    (Inl \<lparr>statusCode = 0, errorCode = CannotConnect, headers = Map.empty,
                          payload = [],
                          errorMsg = ''Cannot connect to url: '' @ theUrl @ '' / error : '' @ errMsg,
                          uploadSize = 0, downloadSize = 0\<rparr>, s2)
                  else
                    (case writeBytes E req (transferTimeout args) s2 of (written, s3) \<Rightarrow>
                       if \<not> written then
                         (Inl \<lparr>statusCode = 0, errorCode = SendError, headers = Map.empty,
                               payload = [], errorMsg = ''Cannot send request'',
                               uploadSize = 0, downloadSize = 0\<rparr>, s3)
                       else
                         (case readLine E (transferTimeout args) s3 of ((lineValid, line), s4) \<Rightarrow>
                            if \<not> lineValid then
                              (Inl \<lparr>statusCode = 0, errorCode = CannotReadStatusLine,
                                    headers = Map.empty, payload = [],
                                    errorMsg = ''Cannot retrieve status line'',
                                    uploadSize = length req, downloadSize = 0\<rparr>, s4)
                            else
                              (case sscanf_status (c_str line) of
                                 None \<Rightarrow>
                                   (Inl \<lparr>statusCode = 0, errorCode = MissingStatus,
                                         headers = Map.empty, payload = [],
                                         errorMsg = ''Cannot parse response code from status line'',
                                         uploadSize = length req, downloadSize = 0\<rparr>, s4)
                               | Some code \<Rightarrow>
                                   (case parseHttpHeaders E (transferTimeout args) s4 of
                                      ((headersValid, hs), s5) \<Rightarrow>
                                        if \<not> headersValid then
                                          (Inl \<lparr>statusCode = code, errorCode = HeaderParsingError,
                                                headers = hs, payload = [],
                                                errorMsg = ''Cannot parse http headers'',
                                                uploadSize = length req, downloadSize = 0\<rparr>, s5)
                                        else (Inr (code, hs, length req, msg), s5))))))))"

subsection \<open>The body (lines 307 to 397)\<close>

text \<open>
  A body reader gives \<open>Inl\<close> when the call ends there, and \<open>Inr payload\<close> when the body is
  complete and the call goes on to the gzip test.
\<close>

text \<open>
  The \<open>Content-Length\<close> branch (lines 310 to 327). \<open>contentLength\<close> starts as -1 and is
  read from the header through the string stream (lines 310 to 313).
\<close>

definition content_length :: "WebSocketHttpHeaders \<Rightarrow> int" where
  "content_length hs =
     (case extract_dec_ssize (fst (subscript hs ''Content-Length'')) of
        None \<Rightarrow> - 1 | Some n \<Rightarrow> n)"

definition read_content_length ::
  "'s Transport \<Rightarrow> HttpRequestArgs \<Rightarrow> int \<Rightarrow> WebSocketHttpHeaders \<Rightarrow> nat \<Rightarrow> 's \<Rightarrow>
     (outcome + string) \<times> 's" where
  "read_content_length E args code hs up s =
     (let contentLength = content_length hs
      in if \<not> reserve_ok E (to_size_t contentLength) then (Inl Throws, s)
         else
           (case readBytes E (to_size_t contentLength) (onProgressCallback args)
                   (transferTimeout args) s of
              ((ok, chunk), s1) \<Rightarrow>
                if \<not> ok then
                  (Inl (Returned \<lparr>statusCode = code, errorCode = ChunkReadError, headers = hs,
                         payload = [], errorMsg = ''Cannot read chunk'',
                         uploadSize = up, downloadSize = 0\<rparr>), s1)
                else (Inr chunk, s1)))"

text \<open>
  The loop of the chunked branch (lines 334 to 385). \<open>good\<close> is the state of the string
  stream \<open>ss\<close> declared before the loop, which \<open>ss.str("")\<close> does not reset; \<open>pl\<close> is
  \<open>payload\<close>; \<open>msg\<close> is \<open>errorMsg\<close>. A transport that never stops delivering chunks keeps
  the loop running: the result is then \<open>None\<close>.
\<close>

partial_function (option) chunked_loop ::
  "'s Transport \<Rightarrow> HttpRequestArgs \<Rightarrow> int \<Rightarrow> WebSocketHttpHeaders \<Rightarrow> nat \<Rightarrow> string \<Rightarrow>
     bool \<Rightarrow> string \<Rightarrow> 's \<Rightarrow> ((outcome + string) \<times> 's) option" where
  "chunked_loop E args code hs up msg good pl s =
     (case readLine E (transferTimeout args) s of ((ok, line), s1) \<Rightarrow>
        if \<not> ok then
          Some (Inl (Returned \<lparr>statusCode = code, errorCode = ChunkReadError, headers = hs,
                      payload = pl, errorMsg = msg, uploadSize = up, downloadSize = 0\<rparr>), s1)
        else
          (case extract_hex_uint64 good line of
             (None, good') \<Rightarrow> Some (Inl ReadsIndeterminate, s1)
           | (Some chunkSize, good') \<Rightarrow>
               if \<not> reserve_ok E ((length pl + chunkSize) mod 2 ^ 64) then Some (Inl Throws, s1)
               else
                 (case readBytes E chunkSize (onProgressCallback args) (transferTimeout args) s1 of
                    ((ok2, chunk), s2) \<Rightarrow>
                      if \<not> ok2 then
                        Some (Inl (Returned \<lparr>statusCode = code, errorCode = ChunkReadError,
                                    headers = hs, payload = pl, errorMsg = ''Cannot read chunk'',
                                    uploadSize = up, downloadSize = 0\<rparr>), s2)
                      else
                        (case readLine E (transferTimeout args) s2 of ((ok3, line3), s3) \<Rightarrow>
                           if \<not> ok3 then
                             Some (Inl (Returned \<lparr>statusCode = code, errorCode = ChunkReadError,
                                         headers = hs, payload = pl @ chunk, errorMsg = msg,
                                         uploadSize = up, downloadSize = 0\<rparr>), s3)
                           else if chunkSize = 0 then Some (Inr (pl @ chunk), s3)
                           else chunked_loop E args code hs up msg good' (pl @ chunk) s3))))"

text \<open>The choice of the branch (lines 308, 329, 387 and 391).\<close>

definition read_body ::
  "'s Transport \<Rightarrow> HttpRequestArgs \<Rightarrow> int \<Rightarrow> WebSocketHttpHeaders \<Rightarrow> nat \<Rightarrow> string \<Rightarrow> 's \<Rightarrow>
     ((outcome + string) \<times> 's) option" where
  "read_body E args code hs up msg s =
     (if hs ''Content-Length'' \<noteq> None then Some (read_content_length E args code hs up s)
      else if hs ''Transfer-Encoding'' \<noteq> None \<and> fst (subscript hs ''Transfer-Encoding'') = ''chunked''
        then chunked_loop E args code hs up msg True [] s
      else if code = 204 then Some (Inr [], s)
      else
        Some (Inl (Returned \<lparr>statusCode = code, errorCode = CannotReadBody, headers = hs,
                    payload = [], errorMsg = ''Cannot read http body'',
                    uploadSize = up, downloadSize = 0\<rparr>), s))"

subsection \<open>The gzip test and the final response (lines 399 to 417)\<close>

definition finish ::
  "'s Transport \<Rightarrow> int \<Rightarrow> WebSocketHttpHeaders \<Rightarrow> nat \<Rightarrow> string \<Rightarrow> HttpResponse" where
  "finish E code hs up pl =
     (case subscript hs ''Content-Encoding'' of (encoding, hs') \<Rightarrow>
        if encoding = ''gzip'' then
          (case gzipInflate E pl of
             None \<Rightarrow>
               \<lparr>statusCode = code, errorCode = Gzip, headers = hs', payload = pl,
                errorMsg = ''Error decompressing payload'',
                uploadSize = up, downloadSize = length pl\<rparr>
           | Some decompressedPayload \<Rightarrow>
               \<lparr>statusCode = code, errorCode = Ok, headers = hs', payload = decompressedPayload,
                errorMsg = [], uploadSize = up, downloadSize = length pl\<rparr>)
        else
          \<lparr>statusCode = code, errorCode = Ok, headers = hs', payload = pl,
           errorMsg = [], uploadSize = up, downloadSize = length pl\<rparr>)"

subsection \<open>After the redirect test (lines 300 to 417)\<close>

definition respond ::
  "'s Transport \<Rightarrow> HttpRequestArgs \<Rightarrow> string \<Rightarrow> int \<Rightarrow> WebSocketHttpHeaders \<Rightarrow> nat \<Rightarrow> string \<Rightarrow>
     's \<Rightarrow> (outcome \<times> 's) option" where
  "respond E args theVerb code hs up msg s =
     (if theVerb = ''HEAD'' then
        Some (Returned \<lparr>statusCode = code, errorCode = Ok, headers = hs, payload = [],
                errorMsg = [], uploadSize = up, downloadSize = 0\<rparr>, s)
      else
        (case read_body E args code hs up msg s of
           None \<Rightarrow> None
         | Some (Inl out, s1) \<Rightarrow> Some (out, s1)
         | Some (Inr pl, s1) \<Rightarrow> Some (Returned (finish E code hs up pl), s1)))"

subsection \<open>The whole call\<close>

text \<open>
  \<open>std::lock_guard<std::mutex> lock(_mutex)\<close> comes first. \<open>std::mutex\<close> is not recursive: a
  thread that locks it while it is locked waits for the unlock, and when the owner is
  this very call, up the stack, the unlock never comes (C++ leaves a second lock by the
  owner undefined; the usual implementations block). That outcome is \<open>Deadlock\<close>. The
  guard unlocks when the call returns or throws. A call that is blocked, or that runs the
  chunked loop for ever, keeps the mutex. (The model follows the calls of one thread, so
  a mutex found locked is locked by a call further up the same stack.)
\<close>

function request ::
  "'s Transport \<Rightarrow> 's HttpClient \<Rightarrow> string \<Rightarrow> string \<Rightarrow> string \<Rightarrow> HttpRequestArgs \<Rightarrow> int \<Rightarrow>
     (outcome \<times> 's HttpClient) option" where
  "request E w theUrl theVerb theBody args redirects =
     (if mutex_locked w then Some (Deadlock, w)
      else
        (case response_head E args theUrl theVerb theBody (socket w) of
           (Inl r, s1) \<Rightarrow> Some (Returned r, \<lparr>mutex_locked = False, socket = s1\<rparr>)
         | (Inr (code, hs, up, msg), s1) \<Rightarrow>
             if (code \<ge> 301 \<and> code \<le> 308) \<and> followRedirects args then
               (if hs ''Location'' = None then
                  Some (Returned \<lparr>statusCode = code, errorCode = MissingLocation, headers = hs,
                          payload = [], errorMsg = ''Missing location header for redirect'',
                          uploadSize = up, downloadSize = 0\<rparr>,
                        \<lparr>mutex_locked = False, socket = s1\<rparr>)
                else if redirects \<ge> maxRedirects args then
                  Some (Returned \<lparr>statusCode = code, errorCode = TooManyRedirects, headers = hs,
                          payload = [], errorMsg = ''Too many redirects: '' @ dec_int redirects,
                          uploadSize = up, downloadSize = 0\<rparr>,
                        \<lparr>mutex_locked = False, socket = s1\<rparr>)
                else
                  (case request E \<lparr>mutex_locked = True, socket = s1\<rparr>
                          (fst (subscript hs ''Location'')) theVerb theBody args (redirects + 1) of
                     None \<Rightarrow> None
                   | Some (Deadlock, w2) \<Rightarrow> Some (Deadlock, w2)
                   | Some (out, w2) \<Rightarrow> Some (out, w2\<lparr>mutex_locked := False\<rparr>)))
             else
               (case respond E args theVerb code hs up msg s1 of
                  None \<Rightarrow> None
                | Some (out, s2) \<Rightarrow> Some (out, \<lparr>mutex_locked = False, socket = s2\<rparr>))))"
  by pat_completeness auto
termination
  by (relation "measure (\<lambda>(E, w, theUrl, theVerb, theBody, args, redirects).
        nat (maxRedirects args - redirects))") auto

declare request.simps [simp del]

subsection \<open>The entry points\<close>

definition get :: "'s Transport \<Rightarrow> 's HttpClient \<Rightarrow> string \<Rightarrow> HttpRequestArgs \<Rightarrow> (outcome \<times> 's HttpClient) option" where
  "get E w theUrl args = request E w theUrl kGet [] args 0"

definition head :: "'s Transport \<Rightarrow> 's HttpClient \<Rightarrow> string \<Rightarrow> HttpRequestArgs \<Rightarrow> (outcome \<times> 's HttpClient) option" where
  "head E w theUrl args = request E w theUrl kHead [] args 0"

definition del :: "'s Transport \<Rightarrow> 's HttpClient \<Rightarrow> string \<Rightarrow> HttpRequestArgs \<Rightarrow> (outcome \<times> 's HttpClient) option" where
  "del E w theUrl args = request E w theUrl kDel [] args 0"

definition post :: "'s Transport \<Rightarrow> 's HttpClient \<Rightarrow> string \<Rightarrow> string \<Rightarrow> HttpRequestArgs \<Rightarrow> (outcome \<times> 's HttpClient) option" where
  "post E w theUrl theBody args = request E w theUrl kPost theBody args 0"

definition post_parameters :: "'s Transport \<Rightarrow> 's HttpClient \<Rightarrow> string \<Rightarrow> (string \<times> string) list \<Rightarrow> HttpRequestArgs \<Rightarrow> (outcome \<times> 's HttpClient) option" where
  "post_parameters E w theUrl httpParameters args =
     request E w theUrl kPost (serializeHttpParameters httpParameters) args 0"

definition put :: "'s Transport \<Rightarrow> 's HttpClient \<Rightarrow> string \<Rightarrow> string \<Rightarrow> HttpRequestArgs \<Rightarrow> (outcome \<times> 's HttpClient) option" where
  "put E w theUrl theBody args = request E w theUrl kPut theBody args 0"

definition put_parameters :: "'s Transport \<Rightarrow> 's HttpClient \<Rightarrow> string \<Rightarrow> (string \<times> string) list \<Rightarrow> HttpRequestArgs \<Rightarrow> (outcome \<times> 's HttpClient) option" where
  "put_parameters E w theUrl httpParameters args =
     request E w theUrl kPut (serializeHttpParameters httpParameters) args 0"

section \<open>The worker thread: \<open>HttpClient::run\<close>, \<open>performRequest\<close> and the destructor\<close>

text \<open>
  An entry of \<open>_queue\<close> is a request and its callback; \<open>'c\<close> names callbacks. The worker is
  at one of the places of \<open>run\<close> where it reads or writes a member shared with other
  threads:
  \<^item> \<open>LoopTop\<close>: at the \<open>while\<close> of line 82, holding \<open>_queueMutex\<close> or waiting on \<open>_condition\<close>;
  \<^item> \<open>CheckStop1\<close>: at the \<open>if (_stop)\<close> of line 87; \<open>Pop\<close>: at lines 89 to 93;
  \<^item> \<open>CheckStop2 e\<close>: at the \<open>if (_stop)\<close> of line 96, with the entry \<open>e\<close> popped;
  \<^item> \<open>Request e\<close>: about to call \<open>request\<close> (line 98); \<open>Running e\<close>: inside that call;
  \<^item> \<open>Callback e r\<close>: about to call the callback with the response \<open>r\<close> (line 99);
  \<^item> \<open>CheckStop3\<close>: at the \<open>if (_stop)\<close> of line 101; \<open>Exited\<close>: \<open>run\<close> has returned;
  \<^item> \<open>Halted\<close>: the call of \<open>request\<close> did not return a response, and the thread goes no further.
\<close>

datatype 'c pc =
    LoopTop | CheckStop1 | Pop
  | CheckStop2 "HttpRequestArgs \<times> 'c"
  | Request "HttpRequestArgs \<times> 'c"
  | Running "HttpRequestArgs \<times> 'c"
  | Callback "HttpRequestArgs \<times> 'c" HttpResponse
  | CheckStop3 | Exited | Halted

text \<open>
  \<open>queue\<close> is \<open>_queue\<close> and \<open>stop\<close> is \<open>_stop\<close>. \<open>started\<close> and \<open>delivered\<close> record, in order,
  the entries whose request the worker has begun to execute and the callbacks it has
  invoked.
\<close>

record ('s, 'c) dispatcher =
  queue :: "(HttpRequestArgs \<times> 'c) list"
  stop :: bool
  client :: "'s HttpClient"
  worker :: "'c pc"
  started :: "(HttpRequestArgs \<times> 'c) list"
  delivered :: "((HttpRequestArgs \<times> 'c) \<times> HttpResponse) list"

text \<open>
  One step of the worker, or of another thread: \<open>performRequest\<close> pushes an entry while
  the worker does not hold \<open>_queueMutex\<close>, and the destructor sets \<open>_stop\<close> at any moment.
  With the queue empty and \<open>_stop\<close> clear the worker waits at \<open>LoopTop\<close>.
\<close>

inductive step ::
  "'s Transport \<Rightarrow> ('s, 'c) dispatcher \<Rightarrow> ('s, 'c) dispatcher \<Rightarrow> bool" for E :: "'s Transport" where
  leave_wait:
    "worker d = LoopTop \<Longrightarrow> stop d \<or> queue d \<noteq> [] \<Longrightarrow> step E d (d\<lparr>worker := CheckStop1\<rparr>)"
| stop1_return:
    "worker d = CheckStop1 \<Longrightarrow> stop d \<Longrightarrow> step E d (d\<lparr>worker := Exited\<rparr>)"
| stop1_go_on:
    "worker d = CheckStop1 \<Longrightarrow> \<not> stop d \<Longrightarrow> step E d (d\<lparr>worker := Pop\<rparr>)"
| pop:
    "worker d = Pop \<Longrightarrow> queue d = e # q \<Longrightarrow> step E d (d\<lparr>queue := q, worker := CheckStop2 e\<rparr>)"
| stop2_return:
    "worker d = CheckStop2 e \<Longrightarrow> stop d \<Longrightarrow> step E d (d\<lparr>worker := Exited\<rparr>)"
| stop2_go_on:
    "worker d = CheckStop2 e \<Longrightarrow> \<not> stop d \<Longrightarrow> step E d (d\<lparr>worker := Request e\<rparr>)"
| call_request:
    "worker d = Request e \<Longrightarrow> step E d (d\<lparr>worker := Running e, started := started d @ [e]\<rparr>)"
| request_returns:
    "worker d = Running (args, cb) \<Longrightarrow>
     request E (client d) (url args) (verb args) (body args) args 0 = Some (Returned r, w) \<Longrightarrow>
     step E d (d\<lparr>client := w, worker := Callback (args, cb) r\<rparr>)"
| request_halts:
    "worker d = Running (args, cb) \<Longrightarrow>
     request E (client d) (url args) (verb args) (body args) args 0 = Some (out, w) \<Longrightarrow>
     (\<forall>r. out \<noteq> Returned r) \<Longrightarrow>
     step E d (d\<lparr>client := w, worker := Halted\<rparr>)"
| call_callback:
    "worker d = Callback e r \<Longrightarrow>
     step E d (d\<lparr>worker := CheckStop3, delivered := delivered d @ [(e, r)]\<rparr>)"
| stop3_return:
    "worker d = CheckStop3 \<Longrightarrow> stop d \<Longrightarrow> step E d (d\<lparr>worker := Exited\<rparr>)"
| stop3_go_on:
    "worker d = CheckStop3 \<Longrightarrow> \<not> stop d \<Longrightarrow> step E d (d\<lparr>worker := LoopTop\<rparr>)"
| performRequest:
    "worker d \<noteq> CheckStop1 \<Longrightarrow> worker d \<noteq> Pop \<Longrightarrow> step E d (d\<lparr>queue := queue d @ [e]\<rparr>)"
| destructor:
    "step E d (d\<lparr>stop := True\<rparr>)"

text \<open>
  The entries that a dispatcher with \<open>_stop\<close> set may still execute, and those whose
  callback it may still invoke: the one entry that has passed the test of line 96.
\<close>

fun in_flight :: "'c pc \<Rightarrow> (HttpRequestArgs \<times> 'c) list" where
  "in_flight (Request e) = [e]"
| "in_flight _ = []"

fun undelivered :: "'c pc \<Rightarrow> (HttpRequestArgs \<times> 'c) list" where
  "undelivered (Request e) = [e]"
| "undelivered (Running e) = [e]"
| "undelivered (Callback e r) = [e]"
| "undelivered _ = []"

text \<open>
  The entries that stay in the queue: all of them, but for the first when the worker is
  already at the \<open>pop\<close> of line 90.
\<close>

definition left_waiting :: "('s, 'c) dispatcher \<Rightarrow> (HttpRequestArgs \<times> 'c) list" where
  "left_waiting d = (if worker d = Pop then tl (queue d) else queue d)"

section \<open>A scripted transport, for evaluating the model\<close>

text \<open>
  A peer that answers from a script: one list of events per connection, consumed by the
  reads in order. A read that does not find an event of its kind fails. The bytes written
  are kept in \<open>sent\<close>.
\<close>

datatype event = Line bool string | Bytes bool string | Headers bool "(string \<times> string) list"

record peer =
  connections :: "event list list"
  inbound :: "event list"
  sent :: "string list"

definition scripted_parse :: "string \<Rightarrow> (string \<times> string \<times> string \<times> string \<times> int) option" where
  "scripted_parse u =
     (if take 7 u = ''http://'' \<and> takeWhile (\<lambda>c. c \<noteq> CHR ''/'') (drop 7 u) \<noteq> [] then
        Some (''http'', takeWhile (\<lambda>c. c \<noteq> CHR ''/'') (drop 7 u),
              (if dropWhile (\<lambda>c. c \<noteq> CHR ''/'') (drop 7 u) = [] then ''/''
               else dropWhile (\<lambda>c. c \<noteq> CHR ''/'') (drop 7 u)), [], 80)
      else None)"

definition scripted_connect :: "string \<Rightarrow> int \<Rightarrow> int \<Rightarrow> peer \<Rightarrow> (bool \<times> string) \<times> peer" where
  "scripted_connect host port timeout s =
     (case connections s of
        [] \<Rightarrow> ((False, ''connection refused''), s)
      | c # cs \<Rightarrow> ((True, []), s\<lparr>connections := cs, inbound := c\<rparr>))"

definition scripted_writeBytes :: "string \<Rightarrow> int \<Rightarrow> peer \<Rightarrow> bool \<times> peer" where
  "scripted_writeBytes bytes timeout s = (True, s\<lparr>sent := sent s @ [bytes]\<rparr>)"

definition scripted_readLine :: "int \<Rightarrow> peer \<Rightarrow> (bool \<times> string) \<times> peer" where
  "scripted_readLine timeout s =
     (case inbound s of
        Line ok l # es \<Rightarrow> ((ok, l), s\<lparr>inbound := es\<rparr>)
      | _ \<Rightarrow> ((False, []), s))"

definition scripted_readBytes ::
  "nat \<Rightarrow> (int \<Rightarrow> int \<Rightarrow> bool) \<Rightarrow> int \<Rightarrow> peer \<Rightarrow> (bool \<times> string) \<times> peer" where
  "scripted_readBytes n progress timeout s =
     (case inbound s of
        Bytes ok bytes # es \<Rightarrow> ((ok \<and> length bytes = n, bytes), s\<lparr>inbound := es\<rparr>)
      | _ \<Rightarrow> ((False, []), s))"

definition scripted_parseHttpHeaders :: "int \<Rightarrow> peer \<Rightarrow> (bool \<times> WebSocketHttpHeaders) \<times> peer" where
  "scripted_parseHttpHeaders timeout s =
     (case inbound s of
        Headers ok h # es \<Rightarrow> ((ok, map_of h), s\<lparr>inbound := es\<rparr>)
      | _ \<Rightarrow> ((False, Map.empty), s))"

definition scripted :: "peer Transport" where
  "scripted =
     \<lparr>UrlParser_parse = scripted_parse,
      createSocket = (\<lambda>tls s. ((True, []), s)),
      connect = scripted_connect,
      writeBytes = scripted_writeBytes,
      readLine = scripted_readLine,
      readBytes = scripted_readBytes,
      parseHttpHeaders = scripted_parseHttpHeaders,
      gzipInflate = (\<lambda>bytes. None),
      reserve_ok = (\<lambda>n. n < 2 ^ 62)\<rparr>"

text \<open>A request with no extra headers that follows up to \<open>m\<close> redirects.\<close>

definition plain_args :: "int \<Rightarrow> HttpRequestArgs" where
  "plain_args m =
     \<lparr>url = [], verb = [], body = [], extraHeaders = [], connectTimeout = 60,
      transferTimeout = 1800, followRedirects = True, maxRedirects = m, verbose = False,
      compress = False, onProgressCallback = (\<lambda>current total. True)\<rparr>"

text \<open>A client whose mutex is free, facing a peer with the given scripts.\<close>

definition fresh_client :: "event list list \<Rightarrow> peer HttpClient" where
  "fresh_client cs =
     \<lparr>mutex_locked = False, socket = \<lparr>connections = cs, inbound = [], sent = []\<rparr>\<rparr>"

text \<open>The response a call returned, if it returned one.\<close>

definition response_of :: "(outcome \<times> 'w) option \<Rightarrow> HttpResponse option" where
  "response_of res = (case res of Some (Returned r, w) \<Rightarrow> Some r | _ \<Rightarrow> None)"

text \<open>The bytes a call wrote to the scripted peer.\<close>

definition bytes_sent :: "(outcome \<times> peer HttpClient) option \<Rightarrow> string list option" where
  "bytes_sent res = map_option (\<lambda>(out, w). sent (socket w)) res"

subsection \<open>Scripts\<close>

text \<open>Two redirects, and a page of two bytes.\<close>

definition moved :: "event list" where
  "moved = [Line True (''HTTP/1.1 301 Moved Permanently'' @ CRLF),
            Headers True [(''Location'', ''http://b/y'')]]"

definition moved_again :: "event list" where
  "moved_again = [Line True (''HTTP/1.1 302 Found'' @ CRLF),
                  Headers True [(''Location'', ''http://a/x'')]]"

definition found :: "event list" where
  "found = [Line True (''HTTP/1.1 200 OK'' @ CRLF),
            Headers True [(''Content-Length'', ''2'')], Bytes True ''ok'']"

text \<open>A response to \<open>HEAD\<close> that announces a body of five bytes.\<close>

definition head_with_length :: "event list" where
  "head_with_length = [Line True (''HTTP/1.1 200 OK'' @ CRLF),
                       Headers True [(''Content-Length'', ''5'')], Bytes True ''hello'']"

text \<open>
  A chunked response whose first chunk-size line is \<open>zz\<close>; the peer then delivers the zero
  bytes asked for and an empty line.
\<close>

definition chunked_zz :: "event list" where
  "chunked_zz = [Line True (''HTTP/1.1 200 OK'' @ CRLF),
                 Headers True [(''Transfer-Encoding'', ''chunked'')],
                 Line True (''zz'' @ CRLF), Bytes True [], Line True CRLF]"

text \<open>The scripted peer after the \<open>GET\<close> request for \<open>http://a/x\<close>, with \<open>es\<close> still to deliver.\<close>

definition answering :: "event list \<Rightarrow> peer" where
  "answering es =
     \<lparr>connections = [], inbound = es,
      sent = [''GET /x HTTP/1.1'' @ CRLF @ ''Host: a'' @ CRLF @ ''Accept: */*'' @ CRLF @
              ''User-Agent: ixwebsocket'' @ CRLF @ CRLF]\<rparr>"

text \<open>A dispatcher with two entries waiting, the worker at the top of its loop, and \<open>_stop\<close> set.\<close>

definition stopped_dispatcher :: "(peer, nat) dispatcher" where
  "stopped_dispatcher =
     \<lparr>queue = [(plain_args 0, 1), (plain_args 0, 2)], stop = True, client = fresh_client [],
      worker = LoopTop, started = [], delivered = []\<rparr>"

section \<open>Malformed chunk-size lines\<close>

text \<open>
  A chunk-size line that holds no hexadecimal digit where the conversion looks for one:
  after white space, a sign and the \<open>0x\<close> prefix.
\<close>

definition no_hex_digit :: "string \<Rightarrow> bool" where
  "no_hex_digit line =
     (case skip_0x (snd (take_sign (dropWhile isspace line))) of
        [] \<Rightarrow> True
      | c # cs \<Rightarrow> hex_value c = None)"

section \<open>Facts about the library functions\<close>

lemma hex_upper_byte:
  assumes "n < 256"
  shows "setw 2 CHR ''0'' (hex_upper n) = [hex_digit_upper (n div 16), hex_digit_upper (n mod 16)]"
proof (cases "n < 16")
  case True
  then show ?thesis by (simp add: setw_def hex_upper.simps hex_digit_upper_def)
next
  case False
  from assms have d: "n div 16 < 16" by simp
  have "hex_upper n = hex_upper (n div 16) @ [hex_digit_upper (n mod 16)]"
    using False by (subst hex_upper.simps) simp
  also have "hex_upper (n div 16) = [hex_digit_upper (n div 16)]"
    using d by (subst hex_upper.simps) simp
  finally show ?thesis by (simp add: setw_def)
qed

lemma hex_value_digit:
  assumes "d < 16"
  shows "hex_value (hex_digit_upper d) = Some d"
proof -
  from assms
  have "d = 0 \<or> d = 1 \<or> d = 2 \<or> d = 3 \<or> d = 4 \<or> d = 5 \<or> d = 6 \<or> d = 7
      \<or> d = 8 \<or> d = 9 \<or> d = 10 \<or> d = 11 \<or> d = 12 \<or> d = 13 \<or> d = 14 \<or> d = 15"
    by arith
  then show ?thesis
    by (elim disjE) (simp_all add: hex_value_def hex_digit_upper_def)
qed

lemma percentDecode_escape:
  "percentDecode (CHR ''%'' # setw 2 CHR ''0'' (hex_upper (of_char c)) @ rest) = c # percentDecode rest"
proof -
  let ?n = "of_char c :: nat"
  have n: "16 * (?n div 16) + ?n mod 16 = ?n" by simp
  have d: "?n div 16 < 16" "?n mod 16 < 16"
    by (rule less_mult_imp_div_less) simp_all
  show ?thesis
    by (simp add: hex_upper_byte hex_value_digit [OF d(1)] hex_value_digit [OF d(2)] n)
qed

lemma percentDecode_plain:
  "c \<noteq> CHR ''%'' \<Longrightarrow> percentDecode (c # rest) = c # percentDecode rest"
  by simp

lemma percentDecode_urlEncode: "percentDecode (urlEncode s) = s"
proof (induction s)
  case Nil
  show ?case by simp
next
  case (Cons c cs)
  show ?case
  proof (cases "isalnum c \<or> c = CHR ''-'' \<or> c = CHR ''_'' \<or> c = CHR ''.'' \<or> c = CHR ''~''")
    case True
    then have "c \<noteq> CHR ''%''" by (auto simp: isalnum_def)
    with True Cons show ?thesis by (simp del: percentDecode.simps add: percentDecode_plain)
  next
    case False
    with Cons show ?thesis
      by (simp del: percentDecode.simps add: percentDecode_escape)
  qed
qed

lemma urlEncode_rule:
  "urlEncode s =
     concat (map (\<lambda>c. if isalnum c \<or> c \<in> set ''-_.~'' then [c] else percent_escape c) s)"
  by (induction s) (auto simp: percent_escape_def hex_upper_byte hex_digit_upper_def)

text \<open>
  Claim C7. For every byte sequence, \<open>urlEncode\<close> leaves the alphanumeric bytes and
  \<open>-\<close>, \<open>_\<close>, \<open>.\<close>, \<open>~\<close> as they are and replaces every other byte by \<open>%\<close> and the two
  uppercase hexadecimal digits of its value; percent-decoding the result gives the
  original sequence back.
\<close>

theorem urlEncode_percent_encoding:
  "urlEncode s =
     concat (map (\<lambda>c. if isalnum c \<or> c \<in> set ''-_.~'' then [c] else percent_escape c) s)
   \<and> percentDecode (urlEncode s) = s"
  using urlEncode_rule percentDecode_urlEncode by blast

theorem urlEncode_percent_encoding_witness:
  "urlEncode ''a b/~%'' = ''a%20b%2F~%25'' \<and> percentDecode (urlEncode ''a b/~%'') = ''a b/~%''"
proof -
  note t = urlEncode_percent_encoding [of "''a b/~%''"]
  from t [THEN conjunct1] have a: "urlEncode ''a b/~%'' = ''a%20b%2F~%25''"
    by (simp add: isalnum_def percent_escape_def del: urlEncode.simps)
  from t have b: "percentDecode (urlEncode ''a b/~%'') = ''a b/~%''"
    by (rule conjunct2)
  from a b show ?thesis by (simp del: urlEncode.simps percentDecode.simps)
qed

lemma no_hex_digit_extract:
  assumes "dropWhile isspace line \<noteq> []" and "no_hex_digit line"
  shows "extract_hex_uint64 True line = (Some 0, False)"
proof -
  obtain neg s2 where ts: "take_sign (dropWhile isspace line) = (neg, s2)"
    by (cases "take_sign (dropWhile isspace line)")
  from assms(2) ts have "accumulate 16 0 0 (skip_0x s2) = (0, 0, skip_0x s2)"
    by (cases "skip_0x s2") (simp_all add: no_hex_digit_def digit_value_def)
  with assms(1) ts show ?thesis
    by (simp add: extract_hex_uint64_def)
qed

section \<open>Facts about request\<close>

lemma request_locked:
  "mutex_locked w \<Longrightarrow> request E w theUrl theVerb theBody args redirects = Some (Deadlock, w)"
  by (subst request.simps) simp

lemma request_early_return:
  assumes "\<not> mutex_locked w"
    and "response_head E args theUrl theVerb theBody (socket w) = (Inl r, s)"
  shows "request E w theUrl theVerb theBody args redirects =
           Some (Returned r, \<lparr>mutex_locked = False, socket = s\<rparr>)"
  using assms by (subst request.simps) simp

lemma request_no_redirect:
  assumes "\<not> mutex_locked w"
    and "response_head E args theUrl theVerb theBody (socket w) = (Inr (code, hs, up, msg), s)"
    and "\<not> ((code \<ge> 301 \<and> code \<le> 308) \<and> followRedirects args)"
  shows "request E w theUrl theVerb theBody args redirects =
     (case respond E args theVerb code hs up msg s of
        None \<Rightarrow> None
      | Some (out, s2) \<Rightarrow> Some (out, \<lparr>mutex_locked = False, socket = s2\<rparr>))"
proof -
  from assms(3) have "((code \<ge> 301 \<and> code \<le> 308) \<and> followRedirects args) = False" by simp
  with assms(1,2) show ?thesis
    by (subst request.simps) (simp only: if_False prod.case sum.case)
qed

lemma request_redirect_deadlock:
  assumes "\<not> mutex_locked w"
    and "response_head E args theUrl theVerb theBody (socket w) = (Inr (code, hs, up, msg), s)"
    and "code \<ge> 301" "code \<le> 308" "followRedirects args"
    and "hs ''Location'' = Some location"
    and "redirects < maxRedirects args"
  shows "request E w theUrl theVerb theBody args redirects =
           Some (Deadlock, \<lparr>mutex_locked = True, socket = s\<rparr>)"
  using assms by (subst request.simps) (simp add: request_locked)

text \<open>
  The depth test by itself: a redirect received at a depth that has reached \<open>maxRedirects\<close>
  ends the call with \<open>TooManyRedirects\<close>, and the socket is left as it was after the headers.
\<close>

lemma request_too_many_redirects:
  assumes "\<not> mutex_locked w"
    and "response_head E args theUrl theVerb theBody (socket w) = (Inr (code, hs, up, msg), s)"
    and "code \<ge> 301" "code \<le> 308" "followRedirects args"
    and "hs ''Location'' = Some location"
    and "redirects \<ge> maxRedirects args"
  shows "request E w theUrl theVerb theBody args redirects =
           Some (Returned \<lparr>statusCode = code, errorCode = TooManyRedirects, headers = hs,
                   payload = [], errorMsg = ''Too many redirects: '' @ dec_int redirects,
                   uploadSize = up, downloadSize = 0\<rparr>,
                 \<lparr>mutex_locked = False, socket = s\<rparr>)"
  using assms by (subst request.simps) simp

lemma chunked_loop_error_aux:
  assumes "chunked_loop E args code hs up msg good pl s = Some y"
  shows "\<forall>r s'. y = (Inl (Returned r), s') \<longrightarrow> errorCode r = ChunkReadError"
proof (rule chunked_loop.raw_induct
    [where P = "\<lambda>E args code hs up msg good pl s y.
       \<forall>r s'. y = (Inl (Returned r), s') \<longrightarrow> errorCode r = ChunkReadError", OF _ assms],
    goal_cases)
  case (1 f E args code hs up msg good pl s y)
  note IH = "1"(1) and eq = "1"(2)
  from eq show ?case
    by (auto split: prod.splits if_splits option.splits dest: IH)
qed

lemma chunked_loop_error:
  "chunked_loop E args code hs up msg good pl s = Some (Inl (Returned r), s') \<Longrightarrow>
   errorCode r = ChunkReadError"
  by (drule chunked_loop_error_aux) simp

section \<open>Evaluation on the scripted transport\<close>

lemmas scripted_defs =
  scripted_def scripted_parse_def scripted_connect_def scripted_writeBytes_def
  scripted_readLine_def scripted_readBytes_def scripted_parseHttpHeaders_def
  fresh_client_def plain_args_def

lemmas scan_defs =
  sscanf_status_def to_int32_def to_long_def c_str_def isspace_def digit_value_def hex_value_def
  CRLF_def

lemmas verb_defs = kPost_def kPut_def kGet_def kDel_def kHead_def

lemma head_cut:
  "response_head scripted args ''http://a/x'' theVerb [] (socket (fresh_client [[]])) =
     (Inl \<lparr>statusCode = 0, errorCode = CannotReadStatusLine, headers = Map.empty, payload = [],
           errorMsg = ''Cannot retrieve status line'',
           uploadSize = length (build_request theVerb ''/x'' ''a'' args Map.empty []),
           downloadSize = 0\<rparr>,
      \<lparr>connections = [], inbound = [],
       sent = [build_request theVerb ''/x'' ''a'' args Map.empty []]\<rparr>)"
  by (simp add: response_head_def scripted_def scripted_parse_def scripted_connect_def
        scripted_writeBytes_def scripted_readLine_def fresh_client_def Let_def)

text \<open>
  Claim C3 says that the default \<open>Accept\<close> and \<open>User-Agent\<close> lines are written if and only
  if the caller supplied no such header. The two tests search the headers of the response,
  which are still empty, and not \<open>extraHeaders\<close>: a \<open>GET\<close> whose \<open>extraHeaders\<close> hold
  \<open>Accept: text/html\<close> and \<open>User-Agent: curl\<close> writes both of them and both defaults.
\<close>

theorem default_headers_beside_supplied_ones:
  "bytes_sent (get scripted (fresh_client [[]]) ''http://a/x''
      ((plain_args 0)\<lparr>extraHeaders := [(''Accept'', ''text/html''), (''User-Agent'', ''curl'')]\<rparr>)) =
   Some [''GET /x HTTP/1.1'' @ CRLF @ ''Host: a'' @ CRLF @
         ''Accept: text/html'' @ CRLF @ ''User-Agent: curl'' @ CRLF @
         ''Accept: */*'' @ CRLF @ ''User-Agent: ixwebsocket'' @ CRLF @ CRLF]"
proof -
  have "\<not> mutex_locked (fresh_client [[]])" by (simp add: fresh_client_def)
  from request_early_return [OF this head_cut] show ?thesis
    by (simp add: get_def bytes_sent_def build_request_def plain_args_def verb_defs)
qed

text \<open>
  Claim C9 says that \<open>del\<close> sends the verb \<open>DELETE\<close>. The constant \<open>kDel\<close> is \<open>DEL\<close>, and
  that is what the request line of \<open>del\<close> starts with.
\<close>

theorem del_request_line:
  "bytes_sent (del scripted (fresh_client [[]]) ''http://a/x'' (plain_args 0)) =
   Some [''DEL /x HTTP/1.1'' @ CRLF @ ''Host: a'' @ CRLF @
         ''Accept: */*'' @ CRLF @ ''User-Agent: ixwebsocket'' @ CRLF @ CRLF]"
proof -
  have "\<not> mutex_locked (fresh_client [[]])" by (simp add: fresh_client_def)
  from request_early_return [OF this head_cut] show ?thesis
    by (simp add: del_def bytes_sent_def build_request_def plain_args_def verb_defs)
qed


lemma head_moved:
  "response_head scripted (plain_args m) ''http://a/x'' ''GET'' []
      (socket (fresh_client (moved # rest))) =
   (Inr (301, map_of [(''Location'', ''http://b/y'')], 66, []),
      \<lparr>connections = rest, inbound = [],
       sent = [''GET /x HTTP/1.1'' @ CRLF @ ''Host: a'' @ CRLF @ ''Accept: */*'' @ CRLF @
               ''User-Agent: ixwebsocket'' @ CRLF @ CRLF]\<rparr>)"
  by (simp add: response_head_def build_request_def scripted_defs scan_defs moved_def verb_defs)

lemma redirect_deadlocks:
  assumes "0 < m"
  shows "request scripted (fresh_client (moved # rest)) ''http://a/x'' ''GET'' [] (plain_args m) 0 =
     Some (Deadlock,
       \<lparr>mutex_locked = True,
        socket = \<lparr>connections = rest, inbound = [],
          sent = [''GET /x HTTP/1.1'' @ CRLF @ ''Host: a'' @ CRLF @ ''Accept: */*'' @ CRLF @
                  ''User-Agent: ixwebsocket'' @ CRLF @ CRLF]\<rparr>\<rparr>)"
proof (rule request_redirect_deadlock [OF _ head_moved])
  show "\<not> mutex_locked (fresh_client (moved # rest))" by (simp add: fresh_client_def)
  show "followRedirects (plain_args m)" by (simp add: plain_args_def)
  show "map_of [(''Location'', ''http://b/y'')] ''Location'' = Some ''http://b/y''" by simp
  show "0 < maxRedirects (plain_args m)" using assms by (simp add: plain_args_def)
qed simp_all

text \<open>
  Claim C1 says that a redirect is followed within the same locked unit of work, without
  locking the instance mutex a second time, and that the call completes. \<open>request\<close> locks
  \<open>_mutex\<close> on entry and calls itself for the redirect while it holds the lock: a \<open>GET\<close> that
  is answered by a 301 with a \<open>Location\<close> header, with up to five redirects allowed, blocks
  in the second call and never returns.
\<close>

theorem redirect_self_deadlock:
  "map_option fst (get scripted (fresh_client [moved, found]) ''http://a/x'' (plain_args 5)) =
   Some Deadlock"
  by (simp add: get_def kGet_def redirect_deadlocks)

text \<open>
  Claim C2 says that a chain of exactly \<open>maxRedirects\<close> redirects ends with the response of
  the last hop, and a chain of \<open>maxRedirects + 1\<close> with \<open>TooManyRedirects\<close>. With
  \<open>maxRedirects = 1\<close>, a chain of one redirect and a chain of two both block at the first
  hop, for the reason of claim C1: neither result is returned.
\<close>

theorem redirect_chain_never_completes:
  "map_option fst (request scripted (fresh_client [moved, found]) ''http://a/x'' ''GET'' []
      (plain_args 1) 0) = Some Deadlock
   \<and> map_option fst (request scripted (fresh_client [moved, moved_again, found]) ''http://a/x''
      ''GET'' [] (plain_args 1) 0) = Some Deadlock"
  by (simp add: redirect_deadlocks)

lemma head_200:
  "response_head scripted (plain_args m) ''http://a/x'' ''HEAD'' []
      (socket (fresh_client [head_with_length])) =
   (Inr (200, map_of [(''Content-Length'', ''5'')], 67, []),
      \<lparr>connections = [], inbound = [Bytes True ''hello''],
       sent = [''HEAD /x HTTP/1.1'' @ CRLF @ ''Host: a'' @ CRLF @ ''Accept: */*'' @ CRLF @
               ''User-Agent: ixwebsocket'' @ CRLF @ CRLF]\<rparr>)"
  by (simp add: response_head_def build_request_def scripted_defs scan_defs head_with_length_def verb_defs)

text \<open>
  Claim C6. A \<open>HEAD\<close> request whose status line and headers are read, and which is not
  redirected, returns \<open>Ok\<close> with an empty body, whatever the headers say; the socket is left
  as it was when the headers had been read, so nothing of a body is read.
\<close>

theorem head_reads_no_body:
  assumes "\<not> mutex_locked w"
    and "response_head E args theUrl ''HEAD'' theBody (socket w) = (Inr (code, hs, up, msg), s)"
    and "\<not> ((code \<ge> 301 \<and> code \<le> 308) \<and> followRedirects args)"
  shows "request E w theUrl ''HEAD'' theBody args redirects =
     Some (Returned \<lparr>statusCode = code, errorCode = Ok, headers = hs, payload = [],
                     errorMsg = [], uploadSize = up, downloadSize = 0\<rparr>,
           \<lparr>mutex_locked = False, socket = s\<rparr>)"
  by (simp add: request_no_redirect [OF assms] respond_def)

theorem head_reads_no_body_witness:
  "request scripted (fresh_client [head_with_length]) ''http://a/x'' ''HEAD'' [] (plain_args 3) 0 =
     Some (Returned \<lparr>statusCode = 200, errorCode = Ok,
                     headers = map_of [(''Content-Length'', ''5'')], payload = [],
                     errorMsg = [], uploadSize = 67, downloadSize = 0\<rparr>,
           \<lparr>mutex_locked = False,
            socket = \<lparr>connections = [], inbound = [Bytes True ''hello''],
              sent = [''HEAD /x HTTP/1.1'' @ CRLF @ ''Host: a'' @ CRLF @ ''Accept: */*'' @ CRLF @
                      ''User-Agent: ixwebsocket'' @ CRLF @ CRLF]\<rparr>\<rparr>)"
proof (rule head_reads_no_body [OF _ head_200])
  show "\<not> mutex_locked (fresh_client [head_with_length])" by (simp add: fresh_client_def)
  show "\<not> (((200::int) \<ge> 301 \<and> (200::int) \<le> 308) \<and> followRedirects (plain_args 3))" by simp
qed

lemma head_found:
  "response_head scripted (plain_args m) ''http://a/x'' ''GET'' []
      (socket (fresh_client [found])) =
   (Inr (200, map_of [(''Content-Length'', ''2'')], 66, []),
      \<lparr>connections = [], inbound = [Bytes True ''ok''],
       sent = [''GET /x HTTP/1.1'' @ CRLF @ ''Host: a'' @ CRLF @ ''Accept: */*'' @ CRLF @
               ''User-Agent: ixwebsocket'' @ CRLF @ CRLF]\<rparr>)"
  by (simp add: response_head_def build_request_def scripted_defs scan_defs found_def verb_defs)

lemma get_found:
  "request scripted (fresh_client [found]) ''http://a/x'' ''GET'' [] (plain_args m) 0 =
     Some (Returned \<lparr>statusCode = 200, errorCode = Ok,
                     headers = (map_of [(''Content-Length'', ''2'')])(''Content-Encoding'' \<mapsto> []),
                     payload = ''ok'', errorMsg = [], uploadSize = 66, downloadSize = 2\<rparr>,
           \<lparr>mutex_locked = False,
            socket = \<lparr>connections = [], inbound = [],
              sent = [''GET /x HTTP/1.1'' @ CRLF @ ''Host: a'' @ CRLF @ ''Accept: */*'' @ CRLF @
                      ''User-Agent: ixwebsocket'' @ CRLF @ CRLF]\<rparr>\<rparr>)"
proof -
  have a: "\<not> mutex_locked (fresh_client [found])" by (simp add: fresh_client_def)
  have b: "\<not> (((200::int) \<ge> 301 \<and> (200::int) \<le> 308) \<and> followRedirects (plain_args m))" by simp
  show ?thesis
    apply (subst request_no_redirect [OF a head_found b])
    apply (simp add: respond_def read_body_def
        read_content_length_def content_length_def subscript_def extract_dec_ssize_def to_size_t_def finish_def
        scripted_def scripted_readBytes_def plain_args_def isspace_def digit_value_def hex_value_def)
    done
qed


lemma request_body:
  assumes "\<not> mutex_locked w"
    and "response_head E args theUrl theVerb theBody (socket w) = (Inr (code, hs, up, msg), s)"
    and "\<not> ((code \<ge> 301 \<and> code \<le> 308) \<and> followRedirects args)"
    and "theVerb \<noteq> ''HEAD''"
  shows "request E w theUrl theVerb theBody args redirects =
     (case read_body E args code hs up msg s of
        None \<Rightarrow> None
      | Some (Inl out, s1) \<Rightarrow> Some (out, \<lparr>mutex_locked = False, socket = s1\<rparr>)
      | Some (Inr pl, s1) \<Rightarrow>
          Some (Returned (finish E code hs up pl), \<lparr>mutex_locked = False, socket = s1\<rparr>))"
  using assms(4)
  by (simp add: request_no_redirect [OF assms(1-3)] respond_def
      split: option.splits sum.splits prod.splits)

text \<open>
  Claim C5. For a response that is neither to \<open>HEAD\<close> nor redirected, the body is read in
  exactly one way, chosen by the headers in this order: a \<open>Content-Length\<close> header means
  the fixed-length read (\<open>ChunkReadError\<close> when the read fails, the bytes read otherwise);
  else \<open>Transfer-Encoding: chunked\<close> means the chunked decoder; else status 204 means an
  empty body and no error; else the call ends with \<open>CannotReadBody\<close>.
\<close>

theorem body_framing_priority:
  assumes "\<not> mutex_locked w"
    and "response_head E args theUrl theVerb theBody (socket w) = (Inr (code, hs, up, msg), s)"
    and "\<not> ((code \<ge> 301 \<and> code \<le> 308) \<and> followRedirects args)"
    and "theVerb \<noteq> ''HEAD''"
  shows "request E w theUrl theVerb theBody args redirects =
     (if hs ''Content-Length'' \<noteq> None then
        (case read_content_length E args code hs up s of
           (Inl out, s1) \<Rightarrow> Some (out, \<lparr>mutex_locked = False, socket = s1\<rparr>)
         | (Inr pl, s1) \<Rightarrow>
             Some (Returned (finish E code hs up pl), \<lparr>mutex_locked = False, socket = s1\<rparr>))
      else if hs ''Transfer-Encoding'' = Some ''chunked'' then
        (case chunked_loop E args code hs up msg True [] s of
           None \<Rightarrow> None
         | Some (Inl out, s1) \<Rightarrow> Some (out, \<lparr>mutex_locked = False, socket = s1\<rparr>)
         | Some (Inr pl, s1) \<Rightarrow>
             Some (Returned (finish E code hs up pl), \<lparr>mutex_locked = False, socket = s1\<rparr>))
      else if code = 204 then
        Some (Returned (finish E code hs up []), \<lparr>mutex_locked = False, socket = s\<rparr>)
      else
        Some (Returned \<lparr>statusCode = code, errorCode = CannotReadBody, headers = hs,
                payload = [], errorMsg = ''Cannot read http body'',
                uploadSize = up, downloadSize = 0\<rparr>,
              \<lparr>mutex_locked = False, socket = s\<rparr>))
   \<and> (hs ''Content-Length'' \<noteq> None \<and> reserve_ok E (to_size_t (content_length hs)) \<and>
        readBytes E (to_size_t (content_length hs)) (onProgressCallback args)
          (transferTimeout args) s = ((False, chunk), s1) \<longrightarrow>
        request E w theUrl theVerb theBody args redirects =
          Some (Returned \<lparr>statusCode = code, errorCode = ChunkReadError, headers = hs,
                  payload = [], errorMsg = ''Cannot read chunk'',
                  uploadSize = up, downloadSize = 0\<rparr>,
                \<lparr>mutex_locked = False, socket = s1\<rparr>))
   \<and> (hs ''Content-Length'' \<noteq> None \<and> reserve_ok E (to_size_t (content_length hs)) \<and>
        readBytes E (to_size_t (content_length hs)) (onProgressCallback args)
          (transferTimeout args) s = ((True, chunk), s1) \<longrightarrow>
        request E w theUrl theVerb theBody args redirects =
          Some (Returned (finish E code hs up chunk), \<lparr>mutex_locked = False, socket = s1\<rparr>))
   \<and> (hs ''Content-Length'' = None \<and> hs ''Transfer-Encoding'' \<noteq> Some ''chunked'' \<and> code = 204 \<and>
        hs ''Content-Encoding'' \<noteq> Some ''gzip'' \<longrightarrow>
        map_option errorCode (response_of (request E w theUrl theVerb theBody args redirects)) = Some Ok \<and>
        map_option payload (response_of (request E w theUrl theVerb theBody args redirects)) = Some [])"
proof -
  note rb = request_body [OF assms]
  have main: "request E w theUrl theVerb theBody args redirects =
     (if hs ''Content-Length'' \<noteq> None then
        (case read_content_length E args code hs up s of
           (Inl out, s1) \<Rightarrow> Some (out, \<lparr>mutex_locked = False, socket = s1\<rparr>)
         | (Inr pl, s1) \<Rightarrow>
             Some (Returned (finish E code hs up pl), \<lparr>mutex_locked = False, socket = s1\<rparr>))
      else if hs ''Transfer-Encoding'' = Some ''chunked'' then
        (case chunked_loop E args code hs up msg True [] s of
           None \<Rightarrow> None
         | Some (Inl out, s1) \<Rightarrow> Some (out, \<lparr>mutex_locked = False, socket = s1\<rparr>)
         | Some (Inr pl, s1) \<Rightarrow>
             Some (Returned (finish E code hs up pl), \<lparr>mutex_locked = False, socket = s1\<rparr>))
      else if code = 204 then
        Some (Returned (finish E code hs up []), \<lparr>mutex_locked = False, socket = s\<rparr>)
      else
        Some (Returned \<lparr>statusCode = code, errorCode = CannotReadBody, headers = hs,
                payload = [], errorMsg = ''Cannot read http body'',
                uploadSize = up, downloadSize = 0\<rparr>,
              \<lparr>mutex_locked = False, socket = s\<rparr>))"
    unfolding rb
    by (cases "hs ''Transfer-Encoding''") (simp_all add: read_body_def subscript_def)
  have short: "request E w theUrl theVerb theBody args redirects =
          Some (Returned \<lparr>statusCode = code, errorCode = ChunkReadError, headers = hs,
                  payload = [], errorMsg = ''Cannot read chunk'',
                  uploadSize = up, downloadSize = 0\<rparr>,
                \<lparr>mutex_locked = False, socket = s1\<rparr>)"
    if "hs ''Content-Length'' \<noteq> None" "reserve_ok E (to_size_t (content_length hs))"
       "readBytes E (to_size_t (content_length hs)) (onProgressCallback args)
          (transferTimeout args) s = ((False, chunk), s1)"
    using that by (simp add: main read_content_length_def)
  have full: "request E w theUrl theVerb theBody args redirects =
          Some (Returned (finish E code hs up chunk), \<lparr>mutex_locked = False, socket = s1\<rparr>)"
    if "hs ''Content-Length'' \<noteq> None" "reserve_ok E (to_size_t (content_length hs))"
       "readBytes E (to_size_t (content_length hs)) (onProgressCallback args)
          (transferTimeout args) s = ((True, chunk), s1)"
    using that by (simp add: main read_content_length_def)
  have nocontent: "map_option errorCode (response_of (request E w theUrl theVerb theBody args redirects)) = Some Ok \<and>
        map_option payload (response_of (request E w theUrl theVerb theBody args redirects)) = Some []"
    if "hs ''Content-Length'' = None" "hs ''Transfer-Encoding'' \<noteq> Some ''chunked''" "code = 204"
       "hs ''Content-Encoding'' \<noteq> Some ''gzip''"
    using that
    by (cases "hs ''Content-Encoding''") (simp_all add: main response_of_def finish_def subscript_def)
  from main short full nocontent show ?thesis by blast
qed


theorem body_framing_priority_witness:
  "request scripted (fresh_client [found]) ''http://a/x'' ''GET'' [] (plain_args 0) 0 =
     Some (Returned \<lparr>statusCode = 200, errorCode = Ok,
                     headers = (map_of [(''Content-Length'', ''2'')])(''Content-Encoding'' \<mapsto> []),
                     payload = ''ok'', errorMsg = [], uploadSize = 66, downloadSize = 2\<rparr>,
           \<lparr>mutex_locked = False,
            socket = \<lparr>connections = [], inbound = [],
              sent = [''GET /x HTTP/1.1'' @ CRLF @ ''Host: a'' @ CRLF @ ''Accept: */*'' @ CRLF @
                      ''User-Agent: ixwebsocket'' @ CRLF @ CRLF]\<rparr>\<rparr>)"
proof -
  have a: "\<not> mutex_locked (fresh_client [found])" by (simp add: fresh_client_def)
  have b: "\<not> (((200::int) \<ge> 301 \<and> (200::int) \<le> 308) \<and> followRedirects (plain_args 0))" by simp
  have c: "''GET'' \<noteq> ''HEAD''" by simp
  note t = body_framing_priority [OF a head_found b c, THEN conjunct1]
  show ?thesis
    apply (subst t)
    apply (simp add: read_content_length_def content_length_def subscript_def extract_dec_ssize_def
        to_size_t_def finish_def scripted_def scripted_readBytes_def plain_args_def isspace_def
        digit_value_def hex_value_def)
    done
qed

lemma read_body_error:
  assumes "read_body E args code hs up msg s = Some (Inl (Returned r), s1)"
  shows "errorCode r \<noteq> Ok"
proof -
  consider (cl) "hs ''Content-Length'' \<noteq> None"
    | (ch) "hs ''Content-Length'' = None" "hs ''Transfer-Encoding'' = Some ''chunked''"
    | (other) "hs ''Content-Length'' = None" "hs ''Transfer-Encoding'' \<noteq> Some ''chunked''"
    by blast
  then show ?thesis
  proof cases
    case cl
    with assms show ?thesis
      by (auto simp: read_body_def read_content_length_def Let_def split: prod.splits if_splits)
  next
    case ch
    with assms have "chunked_loop E args code hs up msg True [] s = Some (Inl (Returned r), s1)"
      by (simp add: read_body_def subscript_def)
    then show ?thesis by (simp add: chunked_loop_error)
  next
    case other
    with assms show ?thesis
      by (auto simp: read_body_def subscript_def split: if_splits option.splits)
  qed
qed

text \<open>
  Claim C10. When a call that is neither a \<open>HEAD\<close> nor redirected returns \<open>Ok\<close>, and the
  response had no \<open>Content-Encoding\<close> header, the headers returned map \<open>Content-Encoding\<close>
  to the empty string: they are the headers received with that key added.
\<close>

theorem content_encoding_key_inserted:
  assumes "\<not> mutex_locked w"
    and "response_head E args theUrl theVerb theBody (socket w) = (Inr (code, hs, up, msg), s)"
    and "\<not> ((code \<ge> 301 \<and> code \<le> 308) \<and> followRedirects args)"
    and "theVerb \<noteq> ''HEAD''"
    and "hs ''Content-Encoding'' = None"
    and "request E w theUrl theVerb theBody args redirects = Some (Returned r, w')"
    and "errorCode r = Ok"
  shows "headers r ''Content-Encoding'' = Some [] \<and> headers r = hs(''Content-Encoding'' \<mapsto> [])
         \<and> headers r \<noteq> hs"
proof -
  note rb = request_body [OF assms(1-4)]
  from assms(6) obtain x s1 where rd: "read_body E args code hs up msg s = Some (x, s1)"
    unfolding rb by (cases "read_body E args code hs up msg s") auto
  show ?thesis
  proof (cases x)
    case (Inl out)
    with rd assms(6) have "read_body E args code hs up msg s = Some (Inl (Returned r), s1)"
      unfolding rb by simp
    from read_body_error [OF this] assms(7) show ?thesis by simp
  next
    case (Inr pl)
    with rd assms(6) have r: "r = finish E code hs up pl"
      unfolding rb by simp
    have h: "headers r = hs(''Content-Encoding'' \<mapsto> [])"
      using assms(5) by (simp add: r finish_def subscript_def)
    have "hs(''Content-Encoding'' \<mapsto> []) \<noteq> hs"
      using assms(5) by (metis fun_upd_same option.distinct(1))
    with h show ?thesis by simp
  qed
qed

theorem content_encoding_key_inserted_witness:
  "map_of [(''Content-Length'', ''2'')] ''Content-Encoding'' = None
   \<and> map_option (\<lambda>r. headers r ''Content-Encoding'')
        (response_of (request scripted (fresh_client [found]) ''http://a/x'' ''GET'' [] (plain_args 0) 0))
      = Some (Some [])"
proof -
  have a: "\<not> mutex_locked (fresh_client [found])" by (simp add: fresh_client_def)
  have b: "\<not> (((200::int) \<ge> 301 \<and> (200::int) \<le> 308) \<and> followRedirects (plain_args 0))" by simp
  have c: "''GET'' \<noteq> ''HEAD''" by simp
  have d: "map_of [(''Content-Length'', ''2'')] ''Content-Encoding'' = None" by simp
  note t = content_encoding_key_inserted [OF a head_found b c d get_found, THEN conjunct1]
  have "headers \<lparr>statusCode = 200, errorCode = Ok,
                     headers = (map_of [(''Content-Length'', ''2'')])(''Content-Encoding'' \<mapsto> []),
                     payload = ''ok'', errorMsg = [], uploadSize = 66, downloadSize = 2\<rparr>
           ''Content-Encoding'' = Some []"
    by (rule t) simp
  with d show ?thesis
    by (simp add: get_found response_of_def)
qed


lemma head_chunked:
  "script = Line True (''HTTP/1.1 200 OK'' @ CRLF) #
            Headers True [(''Transfer-Encoding'', ''chunked'')] # rest \<Longrightarrow>
   response_head scripted (plain_args m) ''http://a/x'' ''GET'' [] (socket (fresh_client [script])) =
   (Inr (200, map_of [(''Transfer-Encoding'', ''chunked'')], 66, []), answering rest)"
  by (simp add: response_head_def build_request_def scripted_defs scan_defs verb_defs answering_def)

lemma scripted_readLine_answering:
  "readLine scripted t (answering (Line ok l # es)) = ((ok, l), answering es)"
  "readLine scripted t (answering []) = ((False, []), answering [])"
  by (simp_all add: scripted_def scripted_readLine_def answering_def)

lemma scripted_readBytes_answering:
  "readBytes scripted n p t (answering (Bytes ok bytes # es)) = ((ok \<and> length bytes = n, bytes), answering es)"
  by (simp add: scripted_def scripted_readBytes_def answering_def)

lemma zz_no_hex_digit: "dropWhile isspace (''zz'' @ CRLF) \<noteq> [] \<and> no_hex_digit (''zz'' @ CRLF)"
  by (simp add: no_hex_digit_def isspace_def hex_value_def CRLF_def)

lemma chunked_loop_line_fails:
  assumes "readLine E (transferTimeout args) s = ((False, line), s1)"
  shows "chunked_loop E args code hs up msg good pl s =
     Some (Inl (Returned \<lparr>statusCode = code, errorCode = ChunkReadError, headers = hs,
                 payload = pl, errorMsg = msg, uploadSize = up, downloadSize = 0\<rparr>), s1)"
  using assms by (subst chunked_loop.simps) simp

lemma chunked_loop_no_digit:
  assumes "readLine E (transferTimeout args) s = ((True, line), s1)"
    and "dropWhile isspace line \<noteq> []" and "no_hex_digit line"
    and "reserve_ok E (length pl mod 2 ^ 64)"
    and "readBytes E 0 (onProgressCallback args) (transferTimeout args) s1 = ((True, chunk), s2)"
    and "readLine E (transferTimeout args) s2 = ((True, line3), s3)"
  shows "chunked_loop E args code hs up msg True pl s = Some (Inr (pl @ chunk), s3)"
  using assms(1,4,5,6)
  by (subst chunked_loop.simps) (simp add: no_hex_digit_extract [OF assms(2,3)])

lemma chunked_loop_size_zero:
  assumes "readLine E (transferTimeout args) s = ((True, line), s1)"
    and "dropWhile isspace line \<noteq> []" and "no_hex_digit line"
  shows "chunked_loop E args code hs up msg True pl s =
     (if \<not> reserve_ok E (length pl mod 2 ^ 64) then Some (Inl Throws, s1)
      else
        (case readBytes E 0 (onProgressCallback args) (transferTimeout args) s1 of
           ((ok2, chunk), s2) \<Rightarrow>
             if \<not> ok2 then
               Some (Inl (Returned \<lparr>statusCode = code, errorCode = ChunkReadError,
                           headers = hs, payload = pl, errorMsg = ''Cannot read chunk'',
                           uploadSize = up, downloadSize = 0\<rparr>), s2)
             else
               (case readLine E (transferTimeout args) s2 of ((ok3, line3), s3) \<Rightarrow>
                  if \<not> ok3 then
                    Some (Inl (Returned \<lparr>statusCode = code, errorCode = ChunkReadError,
                                headers = hs, payload = pl @ chunk, errorMsg = msg,
                                uploadSize = up, downloadSize = 0\<rparr>), s3)
                  else Some (Inr (pl @ chunk), s3))))"
  using assms(1)
  by (subst chunked_loop.simps)
     (simp add: no_hex_digit_extract [OF assms(2,3)] split: prod.splits)

text \<open>
  A blank chunk-size line, or a stream that is no longer good, leaves \<open>chunkSize\<close>
  unassigned, and the decoder goes on to read it.
\<close>

lemma chunked_loop_unassigned:
  assumes "readLine E (transferTimeout args) s = ((True, line), s1)"
    and "\<not> good \<or> dropWhile isspace line = []"
  shows "chunked_loop E args code hs up msg good pl s = Some (Inl ReadsIndeterminate, s1)"
  using assms
  by (subst chunked_loop.simps) (auto simp: extract_hex_uint64_def)

lemma read_body_chunked:
  assumes "hs ''Content-Length'' = None" and "hs ''Transfer-Encoding'' = Some ''chunked''"
  shows "read_body E args code hs up msg s = chunked_loop E args code hs up msg True [] s"
  using assms by (simp add: read_body_def subscript_def)

text \<open>
  Claim C4 says that a chunk-size line that is not a well-formed hexadecimal integer ends
  the call with \<open>ChunkReadError\<close> and is never taken for the end of the body. Counterexample:
  a chunked response whose first chunk-size line is \<open>zz\<close> is returned with \<open>Ok\<close> and an empty
  body.
\<close>

theorem malformed_chunk_size_ends_body:
  "no_hex_digit (''zz'' @ CRLF)
   \<and> map_option errorCode (response_of
        (request scripted (fresh_client [chunked_zz]) ''http://a/x'' ''GET'' [] (plain_args 0) 0))
      = Some Ok
   \<and> map_option payload (response_of
        (request scripted (fresh_client [chunked_zz]) ''http://a/x'' ''GET'' [] (plain_args 0) 0))
      = Some []"
proof -
  have a: "\<not> mutex_locked (fresh_client [chunked_zz])" by (simp add: fresh_client_def)
  have b: "\<not> (((200::int) \<ge> 301 \<and> (200::int) \<le> 308) \<and> followRedirects (plain_args 0))" by simp
  have c: "''GET'' \<noteq> ''HEAD''" by simp
  note rb = request_body [OF a head_chunked [OF chunked_zz_def] b c]
  have r: "reserve_ok scripted (length ([] :: string) mod 2 ^ 64)" by (simp add: scripted_def)
  have l3: "readBytes scripted 0 (onProgressCallback (plain_args 0)) (transferTimeout (plain_args 0))
              (answering [Bytes True [], Line True CRLF]) = ((True, []), answering [Line True CRLF])"
    by (simp add: scripted_readBytes_answering)
  note loop = chunked_loop_no_digit [OF scripted_readLine_answering(1) zz_no_hex_digit [THEN conjunct1]
      zz_no_hex_digit [THEN conjunct2] r l3 scripted_readLine_answering(1),
      of 200 "map_of [(''Transfer-Encoding'', ''chunked'')]" 66 "[]"]
  show ?thesis
    unfolding rb
    by (simp add: read_body_def subscript_def loop [simplified] response_of_def finish_def
        zz_no_hex_digit [simplified])
qed

text \<open>
  Claim C4, amended. When the read of a chunk-size line fails, the chunked decoder ends
  the call with \<open>ChunkReadError\<close>, and that is the only error code with which the decoder
  returns. The decoder does not check that a chunk-size line is well formed. On a string
  stream that is still good (as it is for the first chunk-size line, which is read with an
  empty payload), a line that is not blank and has no hexadecimal digit after the optional
  white space, sign and \<open>0x\<close> prefix stores chunk size 0: unless \<open>payload.reserve\<close> throws,
  the decoder reads zero bytes and then the following line, and the loop ends there, with
  the body complete and no error when both reads succeed, and with \<open>ChunkReadError\<close> when
  one of them fails.
\<close>

theorem chunk_size_line_unchecked:
  "(readLine E (transferTimeout args) s = ((False, line), s1) \<longrightarrow>
      chunked_loop E args code hs up msg good pl s =
        Some (Inl (Returned \<lparr>statusCode = code, errorCode = ChunkReadError, headers = hs,
                    payload = pl, errorMsg = msg, uploadSize = up, downloadSize = 0\<rparr>), s1))
   \<and> (chunked_loop E args code hs up msg good pl s = Some (Inl (Returned r), s') \<longrightarrow>
        errorCode r = ChunkReadError)
   \<and> (hs ''Content-Length'' = None \<and> hs ''Transfer-Encoding'' = Some ''chunked'' \<longrightarrow>
        read_body E args code hs up msg s = chunked_loop E args code hs up msg True [] s)
   \<and> (readLine E (transferTimeout args) s = ((True, line), s1) \<and>
        dropWhile isspace line \<noteq> [] \<and> no_hex_digit line \<longrightarrow>
        chunked_loop E args code hs up msg True pl s =
          (if \<not> reserve_ok E (length pl mod 2 ^ 64) then Some (Inl Throws, s1)
           else
             (case readBytes E 0 (onProgressCallback args) (transferTimeout args) s1 of
                ((ok2, chunk), s2) \<Rightarrow>
                  if \<not> ok2 then
                    Some (Inl (Returned \<lparr>statusCode = code, errorCode = ChunkReadError,
                                headers = hs, payload = pl, errorMsg = ''Cannot read chunk'',
                                uploadSize = up, downloadSize = 0\<rparr>), s2)
                  else
                    (case readLine E (transferTimeout args) s2 of ((ok3, line3), s3) \<Rightarrow>
                       if \<not> ok3 then
                         Some (Inl (Returned \<lparr>statusCode = code, errorCode = ChunkReadError,
                                     headers = hs, payload = pl @ chunk, errorMsg = msg,
                                     uploadSize = up, downloadSize = 0\<rparr>), s3)
                       else Some (Inr (pl @ chunk), s3)))))"
proof (intro conjI impI)
  assume "readLine E (transferTimeout args) s = ((False, line), s1)"
  then show "chunked_loop E args code hs up msg good pl s =
        Some (Inl (Returned \<lparr>statusCode = code, errorCode = ChunkReadError, headers = hs,
                    payload = pl, errorMsg = msg, uploadSize = up, downloadSize = 0\<rparr>), s1)"
    by (rule chunked_loop_line_fails)
next
  assume "chunked_loop E args code hs up msg good pl s = Some (Inl (Returned r), s')"
  then show "errorCode r = ChunkReadError"
    by (rule chunked_loop_error)
next
  assume "hs ''Content-Length'' = None \<and> hs ''Transfer-Encoding'' = Some ''chunked''"
  then show "read_body E args code hs up msg s = chunked_loop E args code hs up msg True [] s"
    by (elim conjE) (rule read_body_chunked)
next
  assume "readLine E (transferTimeout args) s = ((True, line), s1) \<and>
        dropWhile isspace line \<noteq> [] \<and> no_hex_digit line"
  then have a: "readLine E (transferTimeout args) s = ((True, line), s1)"
    and b: "dropWhile isspace line \<noteq> []" and c: "no_hex_digit line"
    by simp_all
  show "chunked_loop E args code hs up msg True pl s =
          (if \<not> reserve_ok E (length pl mod 2 ^ 64) then Some (Inl Throws, s1)
           else
             (case readBytes E 0 (onProgressCallback args) (transferTimeout args) s1 of
                ((ok2, chunk), s2) \<Rightarrow>
                  if \<not> ok2 then
                    Some (Inl (Returned \<lparr>statusCode = code, errorCode = ChunkReadError,
                                headers = hs, payload = pl, errorMsg = ''Cannot read chunk'',
                                uploadSize = up, downloadSize = 0\<rparr>), s2)
                  else
                    (case readLine E (transferTimeout args) s2 of ((ok3, line3), s3) \<Rightarrow>
                       if \<not> ok3 then
                         Some (Inl (Returned \<lparr>statusCode = code, errorCode = ChunkReadError,
                                     headers = hs, payload = pl @ chunk, errorMsg = msg,
                                     uploadSize = up, downloadSize = 0\<rparr>), s3)
                       else Some (Inr (pl @ chunk), s3))))"
    by (rule chunked_loop_size_zero [OF a b c])
qed

theorem chunk_size_line_unchecked_witness:
  "chunked_loop scripted (plain_args 0) 200 (map_of [(''Transfer-Encoding'', ''chunked'')]) 66 []
      True [] (answering []) =
     Some (Inl (Returned \<lparr>statusCode = 200, errorCode = ChunkReadError,
                 headers = map_of [(''Transfer-Encoding'', ''chunked'')],
                 payload = [], errorMsg = [], uploadSize = 66, downloadSize = 0\<rparr>), answering [])
   \<and> read_body scripted (plain_args 0) 200 (map_of [(''Transfer-Encoding'', ''chunked'')]) 66 []
      (answering [Line True (''zz'' @ CRLF), Bytes True [], Line True CRLF]) =
     chunked_loop scripted (plain_args 0) 200 (map_of [(''Transfer-Encoding'', ''chunked'')]) 66 []
      True [] (answering [Line True (''zz'' @ CRLF), Bytes True [], Line True CRLF])
   \<and> chunked_loop scripted (plain_args 0) 200 (map_of [(''Transfer-Encoding'', ''chunked'')]) 66 []
      True [] (answering [Line True (''zz'' @ CRLF), Bytes True [], Line True CRLF]) =
     Some (Inr [], answering [])"
proof -
  let ?hs = "map_of [(''Transfer-Encoding'', ''chunked'')]"
  have r: "reserve_ok scripted (length ([] :: string) mod 2 ^ 64)" by (simp add: scripted_def)
  have l3: "readBytes scripted 0 (onProgressCallback (plain_args 0)) (transferTimeout (plain_args 0))
              (answering [Bytes True [], Line True CRLF]) = ((True, []), answering [Line True CRLF])"
    by (simp add: scripted_readBytes_answering)
  have l4: "readLine scripted (transferTimeout (plain_args 0)) (answering [Line True CRLF]) =
              ((True, CRLF), answering [])"
    by (rule scripted_readLine_answering(1))
  have hyp: "readLine scripted (transferTimeout (plain_args 0))
        (answering [Line True (''zz'' @ CRLF), Bytes True [], Line True CRLF]) =
        ((True, ''zz'' @ CRLF), answering [Bytes True [], Line True CRLF]) \<and>
      dropWhile isspace (''zz'' @ CRLF) \<noteq> [] \<and> no_hex_digit (''zz'' @ CRLF)"
    using zz_no_hex_digit by (simp only: scripted_readLine_answering simp_thms)
  have hdr: "?hs ''Content-Length'' = None \<and> ?hs ''Transfer-Encoding'' = Some ''chunked''"
    by simp
  have one: "chunked_loop scripted (plain_args 0) 200 ?hs 66 [] True [] (answering []) =
     Some (Inl (Returned \<lparr>statusCode = 200, errorCode = ChunkReadError, headers = ?hs,
                 payload = [], errorMsg = [], uploadSize = 66, downloadSize = 0\<rparr>), answering [])"
    by (rule chunk_size_line_unchecked [THEN conjunct1, THEN mp])
       (rule scripted_readLine_answering(2))
  have only: "errorCode \<lparr>statusCode = 200, errorCode = ChunkReadError, headers = ?hs,
                 payload = [], errorMsg = [], uploadSize = 66, downloadSize = 0\<rparr> = ChunkReadError"
    by (rule chunk_size_line_unchecked [THEN conjunct2, THEN conjunct1, THEN mp, OF one])
  have first: "read_body scripted (plain_args 0) 200 ?hs 66 []
      (answering [Line True (''zz'' @ CRLF), Bytes True [], Line True CRLF]) =
     chunked_loop scripted (plain_args 0) 200 ?hs 66 []
      True [] (answering [Line True (''zz'' @ CRLF), Bytes True [], Line True CRLF])"
    by (rule chunk_size_line_unchecked
          [THEN conjunct2, THEN conjunct2, THEN conjunct1, THEN mp, OF hdr])
  have two: "chunked_loop scripted (plain_args 0) 200 ?hs 66 []
      True [] (answering [Line True (''zz'' @ CRLF), Bytes True [], Line True CRLF]) =
     Some (Inr ([] @ []), answering [])"
    by (subst chunk_size_line_unchecked
          [THEN conjunct2, THEN conjunct2, THEN conjunct2, THEN mp, OF hyp])
       (simp only: r l3 l4 not_True_eq_False if_False prod.case)
  from one only first two show ?thesis by simp
qed


section \<open>The worker after shutdown\<close>

lemma step_after_stop:
  assumes "step E d d'" and "stop d"
  shows "stop d'
    \<and> prefix (started d) (started d')
    \<and> started d' @ in_flight (worker d') = started d @ in_flight (worker d)
    \<and> prefix (delivered d) (delivered d')
    \<and> prefix (map fst (delivered d') @ undelivered (worker d'))
         (map fst (delivered d) @ undelivered (worker d))
    \<and> prefix (left_waiting d) (left_waiting d')"
  using assms
  by (cases rule: step.cases) (auto simp: left_waiting_def)

lemma steps_after_stop:
  assumes "(step E)\<^sup>*\<^sup>* d d'" and "stop d"
  shows "stop d'
    \<and> prefix (started d) (started d')
    \<and> started d' @ in_flight (worker d') = started d @ in_flight (worker d)
    \<and> prefix (delivered d) (delivered d')
    \<and> prefix (map fst (delivered d') @ undelivered (worker d'))
         (map fst (delivered d) @ undelivered (worker d))
    \<and> prefix (left_waiting d) (left_waiting d')"
  using assms
proof (induction rule: rtranclp_induct)
  case base
  then show ?case by simp
next
  case (step y z)
  from step.IH [OF step.prems] have IH: "stop y"
    "prefix (started d) (started y)"
    "started y @ in_flight (worker y) = started d @ in_flight (worker d)"
    "prefix (delivered d) (delivered y)"
    "prefix (map fst (delivered y) @ undelivered (worker y))
         (map fst (delivered d) @ undelivered (worker d))"
    "prefix (left_waiting d) (left_waiting y)"
    by simp_all
  from step_after_stop [OF step.hyps(2) IH(1)] have S: "stop z"
    "prefix (started y) (started z)"
    "started z @ in_flight (worker z) = started y @ in_flight (worker y)"
    "prefix (delivered y) (delivered z)"
    "prefix (map fst (delivered z) @ undelivered (worker z))
         (map fst (delivered y) @ undelivered (worker y))"
    "prefix (left_waiting y) (left_waiting z)"
    by simp_all
  show ?case
    using IH S by (auto intro: prefix_order.trans)
qed

lemma worker_exits:
  assumes "stop d" and "worker d = LoopTop"
  shows "(step E)\<^sup>*\<^sup>* d (d\<lparr>worker := Exited\<rparr>)"
proof -
  from assms have "step E d (d\<lparr>worker := CheckStop1\<rparr>)"
    by (intro step.leave_wait) simp_all
  moreover from assms have "step E (d\<lparr>worker := CheckStop1\<rparr>) (d\<lparr>worker := CheckStop1\<rparr>\<lparr>worker := Exited\<rparr>)"
    by (intro step.stop1_return) simp_all
  ultimately show ?thesis by simp
qed

text \<open>
  Claim C8. Once \<open>_stop\<close> is set, whatever the worker and the other threads do next: the
  only request that may still be executed, and the only callback that may still be
  invoked, is that of the entry that has already passed the test of line 96; the entries
  waiting in the queue stay there; when no entry has passed that test, no request is
  executed and no callback invoked any more; and a worker at the top of its loop leaves
  the loop and returns, with the queue as it was.
\<close>

theorem shutdown_discards_waiting_entries:
  assumes "stop d" and "(step E)\<^sup>*\<^sup>* d d'"
  shows "prefix (started d') (started d @ in_flight (worker d))
    \<and> prefix (map fst (delivered d')) (map fst (delivered d) @ undelivered (worker d))
    \<and> prefix (left_waiting d) (left_waiting d')
    \<and> (undelivered (worker d) = [] \<longrightarrow> started d' = started d \<and> delivered d' = delivered d)
    \<and> (worker d = LoopTop \<longrightarrow>
          (step E)\<^sup>*\<^sup>* d (d\<lparr>worker := Exited\<rparr>) \<and> queue (d\<lparr>worker := Exited\<rparr>) = queue d)"
proof -
  note inv = steps_after_stop [OF assms(2,1)]
  from inv have a: "prefix (started d') (started d @ in_flight (worker d))"
    by (metis prefixI)
  from inv have b: "prefix (map fst (delivered d')) (map fst (delivered d) @ undelivered (worker d))"
    by (meson prefix_order.trans prefixI)
  from inv have c: "prefix (left_waiting d) (left_waiting d')" by simp
  have e: "started d' = started d \<and> delivered d' = delivered d" if u: "undelivered (worker d) = []"
  proof -
    from u have f: "in_flight (worker d) = []" by (cases "worker d") simp_all
    from inv f a have 1: "started d' = started d"
      by (simp add: prefix_order.antisym)
    from inv u b have "map fst (delivered d') = map fst (delivered d)"
      by (simp add: map_mono_prefix prefix_order.antisym)
    then have "length (delivered d') = length (delivered d)"
      by (metis length_map)
    moreover from inv have "prefix (delivered d) (delivered d')" by simp
    ultimately have 2: "delivered d' = delivered d"
      by (auto simp: prefix_def)
    from 1 2 show ?thesis by simp
  qed
  show ?thesis using a b c e worker_exits [OF assms(1)] by simp
qed


theorem shutdown_discards_waiting_entries_witness:
  "stop stopped_dispatcher
   \<and> (step scripted)\<^sup>*\<^sup>* stopped_dispatcher (stopped_dispatcher\<lparr>worker := Exited\<rparr>)
   \<and> started (stopped_dispatcher\<lparr>worker := Exited\<rparr>) = []
   \<and> delivered (stopped_dispatcher\<lparr>worker := Exited\<rparr>) = []
   \<and> queue (stopped_dispatcher\<lparr>worker := Exited\<rparr>) = [(plain_args 0, 1), (plain_args 0, 2)]"
proof -
  have a: "stop stopped_dispatcher" by (simp add: stopped_dispatcher_def)
  have w: "worker stopped_dispatcher = LoopTop" by (simp add: stopped_dispatcher_def)
  have b: "(step scripted)\<^sup>*\<^sup>* stopped_dispatcher (stopped_dispatcher\<lparr>worker := Exited\<rparr>)"
    by (rule worker_exits [OF a w])
  note t = shutdown_discards_waiting_entries [OF a b]
  from t have "undelivered (worker stopped_dispatcher) = [] \<longrightarrow>
      started (stopped_dispatcher\<lparr>worker := Exited\<rparr>) = started stopped_dispatcher \<and>
      delivered (stopped_dispatcher\<lparr>worker := Exited\<rparr>) = delivered stopped_dispatcher"
    by blast
  with w have "started (stopped_dispatcher\<lparr>worker := Exited\<rparr>) = started stopped_dispatcher \<and>
      delivered (stopped_dispatcher\<lparr>worker := Exited\<rparr>) = delivered stopped_dispatcher"
    by simp
  with a b show ?thesis by (simp add: stopped_dispatcher_def)
qed


end
